theory Spec2Isabelle
  imports Complex_Main
begin

section \<open>Data model\<close>

text \<open>
  The quality measures of \<^verbatim>\<open>mriqc/qc/anatomical.py\<close> work on numpy arrays over one
  three-dimensional grid. An array is modelled by its shape and its elements in C
  (row-major) order, the order in which numpy's boolean indexing, \<^verbatim>\<open>sum\<close> and
  \<^verbatim>\<open>reshape(-1)\<close> read them.

  Floating-point numbers are modelled by exact reals. A numpy computation that leaves
  the finite numbers (the median or mean of an empty selection, a division by zero)
  does not raise: it yields \<^verbatim>\<open>nan\<close> or \<^verbatim>\<open>inf\<close>. Such a result is the value
  \<open>None\<close> of the type \<open>npfloat\<close>; HOL's own \<open>x / 0 = 0\<close> is never relied on.
\<close>

datatype 'a vol = Vol (dims: "nat \<times> nat \<times> nat") (flat: "'a list")

type_synonym npfloat = "real option"

datatype py_error =
    RuntimeError string
  | KeyError string
  | IndexError
  | TypeError
  | ValueError
  | AttributeError
  | IOError
  | UnboundLocalError string

text \<open>The module constant \<^verbatim>\<open>FSL_FAST_LABELS\<close>, in the order the source writes its items.\<close>

definition FSL_FAST_LABELS :: "(string \<times> int) list" where
  "FSL_FAST_LABELS = [(''csf'', 1), (''gm'', 2), (''wm'', 3), (''bg'', 0)]"

text \<open>Python's \<^verbatim>\<open>xs[i]\<close> on a list: a negative index counts from the end, an index
  out of range raises \<^verbatim>\<open>IndexError\<close>.\<close>

definition py_index :: "'a list \<Rightarrow> int \<Rightarrow> py_error + 'a" where
  "py_index xs i =
     (if 0 \<le> i \<and> i < int (length xs) then Inr (xs ! nat i)
      else if i < 0 \<and> - int (length xs) \<le> i then Inr (xs ! nat (int (length xs) + i))
      else Inl IndexError)"

text \<open>Division of two numpy floats: a zero divisor gives \<^verbatim>\<open>inf\<close> or \<^verbatim>\<open>nan\<close>.\<close>

definition fdiv :: "real \<Rightarrow> real \<Rightarrow> npfloat" where
  "fdiv a b = (if b = 0 then None else Some (a / b))"

text \<open>Sequencing of computations that may raise: the first exception ends the run.\<close>

definition bindE :: "'e + 'a \<Rightarrow> ('a \<Rightarrow> 'e + 'b) \<Rightarrow> 'e + 'b" where
  "bindE m f = (case m of Inl e \<Rightarrow> Inl e | Inr x \<Rightarrow> f x)"

text \<open>Arithmetic on \<open>npfloat\<close>: a \<^verbatim>\<open>nan\<close> operand gives \<^verbatim>\<open>nan\<close>, and a comparison
  with \<^verbatim>\<open>nan\<close> is false.\<close>

definition ndiv :: "npfloat \<Rightarrow> npfloat \<Rightarrow> npfloat" where
  "ndiv a b = (case a of None \<Rightarrow> None | Some x \<Rightarrow> (case b of None \<Rightarrow> None | Some y \<Rightarrow> fdiv x y))"

definition nadd :: "npfloat \<Rightarrow> npfloat \<Rightarrow> npfloat" where
  "nadd a b = (case a of None \<Rightarrow> None | Some x \<Rightarrow> map_option (\<lambda>y. x + y) b)"

definition nsub :: "npfloat \<Rightarrow> npfloat \<Rightarrow> npfloat" where
  "nsub a b = (case a of None \<Rightarrow> None | Some x \<Rightarrow> map_option (\<lambda>y. x - y) b)"

definition nmul :: "npfloat \<Rightarrow> npfloat \<Rightarrow> npfloat" where
  "nmul a b = (case a of None \<Rightarrow> None | Some x \<Rightarrow> map_option (\<lambda>y. x * y) b)"

definition nabs :: "npfloat \<Rightarrow> npfloat" where
  "nabs a = map_option abs a"

definition nsqrt :: "npfloat \<Rightarrow> npfloat" where
  "nsqrt a = (case a of None \<Rightarrow> None | Some x \<Rightarrow> if x < 0 then None else Some (sqrt x))"

definition nless :: "npfloat \<Rightarrow> real \<Rightarrow> bool" where
  "nless a r = (case a of None \<Rightarrow> False | Some x \<Rightarrow> x < r)"

section \<open>Robust statistics\<close>

text \<open>\<^verbatim>\<open>np.median\<close>: the middle element of the sorted values, the mean of the two
  middle ones for an even count, \<^verbatim>\<open>nan\<close> for no value at all.\<close>

definition median :: "real list \<Rightarrow> npfloat" where
  "median xs =
     (if xs = [] then None
      else Some (let s = sort xs; n = length xs
                 in if odd n then s ! (n div 2)
                    else (s ! (n div 2 - 1) + s ! (n div 2)) / 2))"

text \<open>
  \<^verbatim>\<open>statsmodels.robust.scale.mad(a)\<close> is the median of \<open>|a - median a| / c\<close>. Its
  consistency constant \<open>c\<close> (statsmodels' default is the normal quantile
  \<^verbatim>\<open>Gaussian.ppf(3/4.)\<close>, about 0.6745) is a parameter of the model.
\<close>

definition mad :: "real \<Rightarrow> real list \<Rightarrow> npfloat" where
  "mad c a =
     (case median a of
        None \<Rightarrow> None
      | Some center \<Rightarrow> if c = 0 then None else median (map (\<lambda>x. \<bar>x - center\<bar> / c) a))"

section \<open>Arrays, masks and boolean indexing\<close>

text \<open>A mask or segmentation is an array of an integer or of a floating dtype;
  \<^verbatim>\<open>_prepare_mask\<close> branches on which.\<close>

datatype ndarray = IntArray "int vol" | FloatArray "real vol"

text \<open>A label argument is a tissue name or a number (\<^verbatim>\<open>isinstance(label, string_types)\<close>);
  a name is looked up in \<^verbatim>\<open>FSL_FAST_LABELS\<close>, and an unknown name raises \<^verbatim>\<open>KeyError\<close>.\<close>

datatype label = Name string | Num int

definition dict_get :: "(string \<times> 'a) list \<Rightarrow> string \<Rightarrow> py_error + 'a" where
  "dict_get d k = (case map_of d k of None \<Rightarrow> Inl (KeyError k) | Some v \<Rightarrow> Inr v)"

definition resolve_label :: "label \<Rightarrow> py_error + int" where
  "resolve_label l = (case l of Name s \<Rightarrow> dict_get FSL_FAST_LABELS s | Num i \<Rightarrow> Inr i)"

text \<open>\<^verbatim>\<open>a[m]\<close> for a boolean array \<open>m\<close>: the elements of \<open>a\<close> where \<open>m\<close> is true, in
  C order, as a new one-dimensional array; shapes that differ raise \<^verbatim>\<open>IndexError\<close>.\<close>

definition bool_index :: "'a vol \<Rightarrow> bool vol \<Rightarrow> py_error + 'a list" where
  "bool_index a m =
     (if dims m = dims a then Inr (map fst (filter snd (zip (flat a) (flat m))))
      else Inl IndexError)"

text \<open>The comparisons \<^verbatim>\<open>m > t\<close> and \<^verbatim>\<open>m == l\<close> and the reduction \<^verbatim>\<open>np.sum(m)\<close> on an
  array of either dtype.\<close>

definition np_greater :: "ndarray \<Rightarrow> real \<Rightarrow> bool vol" where
  "np_greater m t =
     (case m of IntArray v \<Rightarrow> map_vol (\<lambda>x. t < real_of_int x) v
              | FloatArray v \<Rightarrow> map_vol (\<lambda>x. t < x) v)"

definition np_equal :: "int vol \<Rightarrow> int \<Rightarrow> bool vol" where
  "np_equal seg l = map_vol (\<lambda>x. x = l) seg"

definition np_sum :: "ndarray \<Rightarrow> real" where
  "np_sum m =
     (case m of IntArray v \<Rightarrow> real_of_int (sum_list (flat v))
              | FloatArray v \<Rightarrow> sum_list (flat v))"

section \<open>Binary morphology (\<^verbatim>\<open>scipy.ndimage\<close>)\<close>

text \<open>
  Positions of a three-dimensional array: \<open>ravel\<close> is the C-order offset of a
  position, \<open>unravel\<close> its inverse, \<open>voxel\<close> reads an element, and \<open>tabulate\<close> builds
  the array of a function of the position.
\<close>

definition vsize :: "nat \<times> nat \<times> nat \<Rightarrow> nat" where
  "vsize d = (case d of (nx, ny, nz) \<Rightarrow> nx * ny * nz)"

definition ravel :: "nat \<times> nat \<times> nat \<Rightarrow> nat \<times> nat \<times> nat \<Rightarrow> nat" where
  "ravel d p = (case d of (nx, ny, nz) \<Rightarrow> (case p of (x, y, z) \<Rightarrow> (x * ny + y) * nz + z))"

definition unravel :: "nat \<times> nat \<times> nat \<Rightarrow> nat \<Rightarrow> nat \<times> nat \<times> nat" where
  "unravel d i = (case d of (nx, ny, nz) \<Rightarrow> (i div (ny * nz), (i div nz) mod ny, i mod nz))"

definition inside :: "nat \<times> nat \<times> nat \<Rightarrow> nat \<times> nat \<times> nat \<Rightarrow> bool" where
  "inside d p = (case d of (nx, ny, nz) \<Rightarrow> (case p of (x, y, z) \<Rightarrow> x < nx \<and> y < ny \<and> z < nz))"

definition voxel :: "'a vol \<Rightarrow> nat \<times> nat \<times> nat \<Rightarrow> 'a" where
  "voxel v p = flat v ! ravel (dims v) p"

definition tabulate :: "nat \<times> nat \<times> nat \<Rightarrow> (nat \<times> nat \<times> nat \<Rightarrow> 'a) \<Rightarrow> 'a vol" where
  "tabulate d f = Vol d (map (\<lambda>i. f (unravel d i)) [0..<vsize d])"

text \<open>\<^verbatim>\<open>generate_binary_structure(3, 2)\<close>: the offsets of the 3x3x3 cube whose city-block
  distance from the centre is at most 2 (the centre, 6 faces and 12 edges).\<close>

definition generate_binary_structure :: "(int \<times> int \<times> int) list" where
  "generate_binary_structure =
     filter (\<lambda>(dx, dy, dz). \<bar>dx\<bar> + \<bar>dy\<bar> + \<bar>dz\<bar> \<le> 2)
       (concat (map (\<lambda>dx. concat (map (\<lambda>dy. map (\<lambda>dz. (dx, dy, dz)) [-1, 0, 1]) [-1, 0, 1]))
          [-1, 0, 1]))"

text \<open>The position \<open>p + off\<close>, when it lies inside the array.\<close>

definition shift ::
  "nat \<times> nat \<times> nat \<Rightarrow> nat \<times> nat \<times> nat \<Rightarrow> int \<times> int \<times> int \<Rightarrow> (nat \<times> nat \<times> nat) option" where
  "shift d p off =
     (case d of (nx, ny, nz) \<Rightarrow> (case p of (x, y, z) \<Rightarrow> (case off of (dx, dy, dz) \<Rightarrow>
        (let x' = int x + dx; y' = int y + dy; z' = int z + dz
         in if 0 \<le> x' \<and> x' < int nx \<and> 0 \<le> y' \<and> y' < int ny \<and> 0 \<le> z' \<and> z' < int nz
            then Some (nat x', nat y', nat z') else None))))"

definition neg_offset :: "int \<times> int \<times> int \<Rightarrow> int \<times> int \<times> int" where
  "neg_offset off = (case off of (dx, dy, dz) \<Rightarrow> (- dx, - dy, - dz))"

text \<open>
  \<^verbatim>\<open>binary_erosion\<close> with the default \<^verbatim>\<open>border_value=0\<close>: a voxel stays set when the
  input is set at every offset of the structure, positions outside the array counting
  as unset. \<^verbatim>\<open>binary_dilation\<close>: a voxel is set when the input is set at some position
  from which an offset of the structure leads to it. \<^verbatim>\<open>binary_opening\<close> is the erosion
  followed by the dilation.
\<close>

definition binary_erosion :: "bool vol \<Rightarrow> bool vol" where
  "binary_erosion b =
     tabulate (dims b) (\<lambda>p. list_all (\<lambda>off. case shift (dims b) p off of
                                             None \<Rightarrow> False
                                           | Some q \<Rightarrow> voxel b q) generate_binary_structure)"

definition binary_dilation :: "bool vol \<Rightarrow> bool vol" where
  "binary_dilation b =
     tabulate (dims b) (\<lambda>p. list_ex (\<lambda>off. case shift (dims b) p (neg_offset off) of
                                            None \<Rightarrow> False
                                          | Some q \<Rightarrow> voxel b q) generate_binary_structure)"

definition binary_opening :: "bool vol \<Rightarrow> bool vol" where
  "binary_opening b = binary_dilation (binary_erosion b)"

text \<open>The morphology functions read an array of numbers as set where it is not zero;
  \<^verbatim>\<open>.astype(np.uint8)\<close> turns their boolean result into an integer array of 0 and 1.\<close>

definition nonzero :: "ndarray \<Rightarrow> bool vol" where
  "nonzero m =
     (case m of IntArray v \<Rightarrow> map_vol (\<lambda>x. x \<noteq> 0) v
              | FloatArray v \<Rightarrow> map_vol (\<lambda>x. x \<noteq> 0) v)"

definition astype_uint8 :: "bool vol \<Rightarrow> ndarray" where
  "astype_uint8 b = IntArray (map_vol (\<lambda>t. if t then 1 else 0) b)"

section \<open>\<^verbatim>\<open>_prepare_mask\<close>\<close>

text \<open>
  \<^verbatim>\<open>
  def _prepare_mask(mask, label, erode=True):
      fgmask = mask.copy()
      if np.issubdtype(fgmask.dtype, np.integer):
          if isinstance(label, string_types):
              label = FSL_FAST_LABELS[label]
          fgmask[fgmask != label] = 0
          fgmask[fgmask == label] = 1
      else:
          fgmask[fgmask > .95] = 1.
          fgmask[fgmask < 1.] = 0
      if erode:
          struc = nd.generate_binary_structure(3, 2)
          fgmask = nd.binary_opening(fgmask, structure=struc).astype(np.uint8)
      return fgmask
  \<close>
  Each masked assignment is one \<open>map_vol\<close>, in the order of the source.
\<close>

definition binarize :: "ndarray \<Rightarrow> label \<Rightarrow> py_error + ndarray" where
  "binarize fgmask label =
     (case fgmask of
        IntArray v \<Rightarrow>
          bindE (resolve_label label) (\<lambda>l.
            Inr (IntArray (map_vol (\<lambda>x. if x = l then 1 else x)
                            (map_vol (\<lambda>x. if x \<noteq> l then 0 else x) v))))
      | FloatArray v \<Rightarrow>
          Inr (FloatArray (map_vol (\<lambda>x. if x < 1 then 0 else x)
                            (map_vol (\<lambda>x. if x > 95 / 100 then 1 else x) v))))"

definition prepare_mask :: "ndarray \<Rightarrow> label \<Rightarrow> bool \<Rightarrow> py_error + ndarray" where
  "prepare_mask msk label erode =
     bindE (binarize msk label) (\<lambda>fgmask.
       Inr (if erode then astype_uint8 (binary_opening (nonzero fgmask)) else fgmask))"

section \<open>\<^verbatim>\<open>snr\<close> and \<^verbatim>\<open>snr_dietrich\<close>\<close>

text \<open>\<^verbatim>\<open>np.sum((a - m) ** 2)\<close>: the sum over no element is 0 whatever \<open>m\<close> is.\<close>

definition sum_sq_dev :: "real list \<Rightarrow> npfloat \<Rightarrow> npfloat" where
  "sum_sq_dev a m =
     (if a = [] then Some 0
      else (case m of None \<Rightarrow> None | Some c \<Rightarrow> Some (\<Sum>x\<leftarrow>a. (x - c)\<^sup>2)))"

text \<open>
  \<^verbatim>\<open>
  def snr(img, smask, erode=True, fglabel=1):
      if isinstance(fglabel, (str, bytes)):
          fglabel = FSL_FAST_LABELS[fglabel]
      fgmask = _prepare_mask(smask, fglabel, erode)
      fg_mean = np.median(img[fgmask > 0])
      bgmask = fgmask
      bg_mean = fg_mean
      # Manually compute sigma, using Bessel's correction (the - 1 in the normalizer)
      bg_std = np.sqrt(np.sum((img[bgmask > 0] - bg_mean) ** 2) / (np.sum(bgmask) - 1))
      return float(fg_mean / bg_std)
  \<close>
\<close>

definition snr :: "real vol \<Rightarrow> ndarray \<Rightarrow> bool \<Rightarrow> label \<Rightarrow> py_error + npfloat" where
  "snr img smask erode fglabel =
     bindE (resolve_label fglabel) (\<lambda>l.
     bindE (prepare_mask smask (Num l) erode) (\<lambda>fgmask.
     bindE (bool_index img (np_greater fgmask 0)) (\<lambda>fg.
       (let fg_mean = median fg; bgmask = fgmask; bg_mean = fg_mean
        in bindE (bool_index img (np_greater bgmask 0)) (\<lambda>bg.
             (let bg_std = nsqrt (ndiv (sum_sq_dev bg bg_mean) (Some (np_sum bgmask - 1)))
              in Inr (ndiv fg_mean bg_std)))))))"

text \<open>
  \<^verbatim>\<open>
  def snr_dietrich(img, smask, airmask, erode=True, fglabel=1):
      if isinstance(fglabel, (str, bytes)):
          fglabel = FSL_FAST_LABELS[fglabel]
      fgmask = _prepare_mask(smask, fglabel, erode)
      bgmask = _prepare_mask(airmask, 1, erode)
      fg_mean = np.median(img[fgmask > 0])
      bg_std = mad(img[bgmask > 0])
      bg_std *= np.sqrt(2.0/(4.0 - pi))
      if bg_std < 1.0e-3:
          return -1.0
      return float(fg_mean / bg_std)
  \<close>
\<close>

definition snr_dietrich ::
  "real \<Rightarrow> real vol \<Rightarrow> ndarray \<Rightarrow> ndarray \<Rightarrow> bool \<Rightarrow> label \<Rightarrow> py_error + npfloat" where
  "snr_dietrich c img smask airmask erode fglabel =
     bindE (resolve_label fglabel) (\<lambda>l.
     bindE (prepare_mask smask (Num l) erode) (\<lambda>fgmask.
     bindE (prepare_mask airmask (Num 1) erode) (\<lambda>bgmask.
     bindE (bool_index img (np_greater fgmask 0)) (\<lambda>fg.
     bindE (bool_index img (np_greater bgmask 0)) (\<lambda>bg.
       (let fg_mean = median fg;
            bg_std = nmul (mad c bg) (Some (sqrt (2 / (4 - pi))))
        in if nless bg_std (1 / 1000) then Inr (Some (- 1))
           else Inr (ndiv fg_mean bg_std)))))))"

section \<open>\<^verbatim>\<open>cnr\<close> and \<^verbatim>\<open>cjv\<close>\<close>

text \<open>\<^verbatim>\<open>np.average(a)\<close> without weights: the sum of the elements of \<open>a\<close> over their
  number. A scalar argument is an array of one element.\<close>

definition np_average :: "npfloat list \<Rightarrow> npfloat" where
  "np_average a = ndiv (fold (\<lambda>x acc. nadd acc x) a (Some 0)) (Some (real (length a)))"

text \<open>
  \<^verbatim>\<open>
  def cnr(img, seg, lbl=None):
      if lbl is None:
          lbl = FSL_FAST_LABELS
      noise_std = mad(img[seg == lbl['bg']])
      if noise_std < 1.0:
          noise_std = np.average(mad(img[seg == lbl['gm']]) +
                                 mad(img[seg == lbl['wm']]) +
                                 mad(img[seg == lbl['csf']]))
      return float(np.abs(np.median(img[seg == lbl['gm']]) - np.median(img[seg == lbl['wm']])) / \
                   noise_std)
  \<close>
  \<open>tissue\<close> is the expression \<^verbatim>\<open>img[seg == lbl[k]]\<close>. The argument of \<^verbatim>\<open>np.average\<close>
  is the one number \<^verbatim>\<open>mad(..) + mad(..) + mad(..)\<close>.
\<close>

definition tissue ::
  "real vol \<Rightarrow> int vol \<Rightarrow> (string \<times> int) list \<Rightarrow> string \<Rightarrow> py_error + real list" where
  "tissue img seg lbl k = bindE (dict_get lbl k) (\<lambda>l. bool_index img (np_equal seg l))"

definition cnr ::
  "real \<Rightarrow> real vol \<Rightarrow> int vol \<Rightarrow> (string \<times> int) list option \<Rightarrow> py_error + npfloat" where
  "cnr c img seg lbl_arg =
     (let lbl = (case lbl_arg of None \<Rightarrow> FSL_FAST_LABELS | Some t \<Rightarrow> t)
      in bindE (tissue img seg lbl ''bg'') (\<lambda>bg.
         bindE (if nless (mad c bg) 1
                then bindE (tissue img seg lbl ''gm'') (\<lambda>gm.
                     bindE (tissue img seg lbl ''wm'') (\<lambda>wm.
                     bindE (tissue img seg lbl ''csf'') (\<lambda>csf.
                       Inr (np_average [nadd (nadd (mad c gm) (mad c wm)) (mad c csf)]))))
                else Inr (mad c bg)) (\<lambda>noise_std.
         bindE (tissue img seg lbl ''gm'') (\<lambda>gm.
         bindE (tissue img seg lbl ''wm'') (\<lambda>wm.
           Inr (ndiv (nabs (nsub (median gm) (median wm))) noise_std))))))"

text \<open>
  \<^verbatim>\<open>
  def cjv(img, seg=None, wmmask=None, gmmask=None, wmlabel='wm', gmlabel='gm'):
      if seg is None and (wmmask is None or gmmask is None):
          raise RuntimeError('Masks or segmentation should be provided')
      if seg is not None:
          if isinstance(wmlabel, string_types):
              wmlabel = FSL_FAST_LABELS[wmlabel]
          if isinstance(gmlabel, string_types):
              gmlabel = FSL_FAST_LABELS[gmlabel]
          wmmask = np.zeros_like(seg)
          wmmask[seg == wmlabel] = 1
          gmmask = np.zeros_like(seg)
          gmmask[seg == gmlabel] = 1
      mu_wm = np.median(img[wmmask > .5])
      mu_gm = np.median(img[gmmask > .5])
      sigma_wm = mad(img[wmmask > .5])
      sigma_gm = mad(img[gmmask > .5])
      return float((sigma_wm + sigma_gm) / (mu_wm - mu_gm))
  \<close>
  An absent argument is \<open>None\<close>. \<open>label_mask\<close> is \<^verbatim>\<open>zeros_like\<close> followed by the masked
  assignment of 1. Comparing an absent mask with \<^verbatim>\<open>.5\<close> would raise \<^verbatim>\<open>TypeError\<close>; the
  first test keeps the run from getting there.
\<close>

definition label_mask :: "int vol \<Rightarrow> int \<Rightarrow> ndarray" where
  "label_mask seg l = IntArray (map_vol (\<lambda>x. if x = l then 1 else 0) seg)"

definition half_select :: "real vol \<Rightarrow> ndarray option \<Rightarrow> py_error + real list" where
  "half_select img m =
     (case m of None \<Rightarrow> Inl TypeError | Some a \<Rightarrow> bool_index img (np_greater a (1 / 2)))"

definition cjv ::
  "real \<Rightarrow> real vol \<Rightarrow> int vol option \<Rightarrow> ndarray option \<Rightarrow> ndarray option \<Rightarrow> label \<Rightarrow> label
     \<Rightarrow> py_error + npfloat" where
  "cjv c img seg wmmask gmmask wmlabel gmlabel =
     (if seg = None \<and> (wmmask = None \<or> gmmask = None)
      then Inl (RuntimeError ''Masks or segmentation should be provided'')
      else bindE (case seg of
                    Some s \<Rightarrow>
                      bindE (resolve_label wmlabel) (\<lambda>wl.
                      bindE (resolve_label gmlabel) (\<lambda>gl.
                        Inr (Some (label_mask s wl), Some (label_mask s gl))))
                  | None \<Rightarrow> Inr (wmmask, gmmask)) (\<lambda>(wmmask, gmmask).
           bindE (half_select img wmmask) (\<lambda>wm.
           bindE (half_select img gmmask) (\<lambda>gm.
             (let mu_wm = median wm; mu_gm = median gm;
                  sigma_wm = mad c wm; sigma_gm = mad c gm
              in Inr (ndiv (nadd sigma_wm sigma_gm) (nsub mu_wm mu_gm)))))))"

section \<open>\<^verbatim>\<open>volume_fraction\<close>\<close>

text \<open>
  \<^verbatim>\<open>
  def volume_fraction(pvms):
      tissue_vfs = {}
      total = 0
      for k, lid in list(FSL_FAST_LABELS.items()):
          if lid == 0:
              continue
          tissue_vfs[k] = pvms[lid - 1].sum()
          total += tissue_vfs[k]

      for k in list(tissue_vfs.keys()):
          tissue_vfs[k] /= total
      return {k: float(v) for k, v in list(tissue_vfs.items())}
  \<close>
  The first loop is \<open>vf_sums\<close>, threading the dictionary (an association list in
  insertion order) and the running total; the second loop is the \<open>map\<close> in
  \<open>volume_fraction\<close>.
\<close>

fun vf_sums ::
  "(string \<times> int) list \<Rightarrow> real vol list \<Rightarrow> (string \<times> real) list \<times> real
     \<Rightarrow> py_error + ((string \<times> real) list \<times> real)" where
  "vf_sums [] pvms acc = Inr acc"
| "vf_sums ((k, lid) # rest) pvms (tissue_vfs, tot) =
     (if lid = 0 then vf_sums rest pvms (tissue_vfs, tot)
      else case py_index pvms (lid - 1) of
             Inl e \<Rightarrow> Inl e
           | Inr v \<Rightarrow>
               (let s = sum_list (flat v)
                in vf_sums rest pvms (tissue_vfs @ [(k, s)], tot + s)))"

definition volume_fraction :: "real vol list \<Rightarrow> py_error + (string \<times> npfloat) list" where
  "volume_fraction pvms =
     (case vf_sums FSL_FAST_LABELS pvms ([], 0) of
        Inl e \<Rightarrow> Inl e
      | Inr (tissue_vfs, tot) \<Rightarrow> Inr (map (\<lambda>(k, v). (k, fdiv v tot)) tissue_vfs))"

section \<open>Well-formed arrays\<close>

text \<open>A numpy array has as many elements as its shape says, and a prepared mask holds
  only 0 and 1.\<close>

definition wf_vol :: "'a vol \<Rightarrow> bool" where
  "wf_vol v = (length (flat v) = vsize (dims v))"

definition wf_ndarray :: "ndarray \<Rightarrow> bool" where
  "wf_ndarray m = (case m of IntArray v \<Rightarrow> wf_vol v | FloatArray v \<Rightarrow> wf_vol v)"

definition shape :: "ndarray \<Rightarrow> nat \<times> nat \<times> nat" where
  "shape m = (case m of IntArray v \<Rightarrow> dims v | FloatArray v \<Rightarrow> dims v)"

definition binary_mask :: "ndarray \<Rightarrow> bool" where
  "binary_mask m =
     (case m of IntArray v \<Rightarrow> list_all (\<lambda>x. x = 0 \<or> x = 1) (flat v)
              | FloatArray v \<Rightarrow> list_all (\<lambda>x. x = 0 \<or> x = 1) (flat v))"

section \<open>The sample standard deviation\<close>

text \<open>\<^verbatim>\<open>np.mean\<close>, and the Bessel-corrected standard deviation as statistics defines it
  (\<^verbatim>\<open>np.std(a, ddof=1)\<close>): the root of the squared deviations from the mean over
  \<open>n - 1\<close>. It is what \<^verbatim>\<open>snr\<close>'s result is compared with below.\<close>

definition mean :: "real list \<Rightarrow> npfloat" where
  "mean xs = fdiv (sum_list xs) (real (length xs))"

definition bessel_std :: "real list \<Rightarrow> npfloat" where
  "bessel_std xs = nsqrt (ndiv (sum_sq_dev xs (mean xs)) (Some (real (length xs) - 1)))"

section \<open>\<^verbatim>\<open>summary_stats\<close>\<close>

text \<open>
  The five statistics of a selection. \<^verbatim>\<open>ndarray.std()\<close> is the population standard
  deviation. \<^verbatim>\<open>np.percentile(a, q)\<close> interpolates linearly between the two sorted values
  around position \<open>(n - 1) q / 100\<close> (\<open>interpolate\<close>, meant for a list that is not empty)
  and raises \<^verbatim>\<open>IndexError\<close> on an empty array. \<^verbatim>\<open>scipy.stats.kurtosis\<close> is the fourth
  central moment over the squared second one, minus 3. The mean, the standard deviation
  and the kurtosis of an empty selection are \<^verbatim>\<open>nan\<close>, and the kurtosis also when the
  second moment is 0.
\<close>

definition central_moment :: "nat \<Rightarrow> real list \<Rightarrow> npfloat" where
  "central_moment j a =
     (case mean a of
        None \<Rightarrow> None
      | Some mu \<Rightarrow> Some ((\<Sum>x\<leftarrow>a. (x - mu) ^ j) / real (length a)))"

definition np_std :: "real list \<Rightarrow> npfloat" where
  "np_std a = nsqrt (central_moment 2 a)"

definition interpolate :: "real list \<Rightarrow> real \<Rightarrow> real" where
  "interpolate a q =
     (let s = sort a; n = length a; h = real (n - 1) * q / 100;
          lo = nat \<lfloor>h\<rfloor>; hi = min (lo + 1) (n - 1)
      in s ! lo + (h - real lo) * (s ! hi - s ! lo))"

definition percentile :: "real list \<Rightarrow> real \<Rightarrow> py_error + real" where
  "percentile a q = (if a = [] then Inl IndexError else Inr (interpolate a q))"

definition kurtosis :: "real list \<Rightarrow> npfloat" where
  "kurtosis a =
     nsub (ndiv (central_moment 4 a) (nmul (central_moment 2 a) (central_moment 2 a))) (Some 3)"

datatype stats =
  Stats (s_mean: npfloat) (s_stdv: npfloat) (s_p95: npfloat) (s_p05: npfloat) (s_k: npfloat)

text \<open>The five assignments of the loop body of \<^verbatim>\<open>summary_stats\<close>, in their order: the
  mean and the standard deviation never raise, the first percentile raises on an empty
  selection. \<open>stats_of\<close> is the record they build from a selection that is not empty.\<close>

definition describe :: "real list \<Rightarrow> py_error + stats" where
  "describe a =
     (let m = mean a; sd = np_std a
      in bindE (percentile a 95) (\<lambda>p95.
         bindE (percentile a 5) (\<lambda>p05.
           Inr (Stats m sd (Some p95) (Some p05) (kurtosis a)))))"

definition stats_of :: "real list \<Rightarrow> stats" where
  "stats_of a =
     Stats (mean a) (np_std a) (Some (interpolate a 95)) (Some (interpolate a 5)) (kurtosis a)"

text \<open>
  \<^verbatim>\<open>img[np.where(m)]\<close>: the positions where \<open>m\<close> is true, in C order, read in \<open>img\<close>; a
  position outside \<open>img\<close> raises \<^verbatim>\<open>IndexError\<close>.
\<close>

definition where_index :: "'a vol \<Rightarrow> bool vol \<Rightarrow> py_error + 'a list" where
  "where_index img m =
     (let ps = map (unravel (dims m)) (filter (\<lambda>i. flat m ! i) [0..<vsize (dims m)])
      in if list_all (inside (dims img)) ps then Inr (map (voxel img) ps) else Inl IndexError)"

text \<open>
  The argument \<^verbatim>\<open>pvms\<close> is a Python list of three-dimensional maps or one such map.
  \<open>stacked_shape\<close> is the shape of \<^verbatim>\<open>np.array(pvms)\<close> (maps of different shapes do not
  stack), and \<open>squeezed_ndim\<close> the number of its axes that are not of length 1. After
  the first branch the list holds maps, or, where a list went through the branch meant
  for one map, a four-dimensional array and the Python list itself: \<open>Stack4\<close> and
  \<open>PyList\<close>, for which \<^verbatim>\<open>img[np.where(.. > 0.5)]\<close> raises \<^verbatim>\<open>IndexError\<close> (four indices
  into three axes) and \<^verbatim>\<open>TypeError\<close> (a list compared with a number).
\<close>

datatype pvms_arg = PvmList "real vol list" | PvmArray "real vol"

datatype pvm_entry = Map3 "real vol" | Stack4 | PyList

definition shape_list :: "nat \<times> nat \<times> nat \<Rightarrow> nat list" where
  "shape_list d = (case d of (nx, ny, nz) \<Rightarrow> [nx, ny, nz])"

definition stacked_shape :: "pvms_arg \<Rightarrow> py_error + nat list" where
  "stacked_shape pvms =
     (case pvms of
        PvmArray v \<Rightarrow> Inr (shape_list (dims v))
      | PvmList [] \<Rightarrow> Inr [0]
      | PvmList (v # vs) \<Rightarrow>
          if list_all (\<lambda>u. dims u = dims v) vs
          then Inr (Suc (length vs) # shape_list (dims v))
          else Inl ValueError)"

definition squeezed_ndim :: "nat list \<Rightarrow> nat" where
  "squeezed_ndim sh = length (filter (\<lambda>n. n \<noteq> 1) sh)"

text \<open>\<^verbatim>\<open>np.array(pvms).sum(axis=0)\<close>: the voxelwise sum of the maps.\<close>

definition sum_axis0 :: "real vol list \<Rightarrow> real vol" where
  "sum_axis0 vs =
     (case vs of
        [] \<Rightarrow> Vol (0, 0, 0) []
      | v # _ \<Rightarrow> Vol (dims v) (map (\<lambda>i. \<Sum>u\<leftarrow>vs. flat u ! i) [0..<length (flat v)]))"

definition digit :: "nat \<Rightarrow> string" where
  "digit n = [''0123456789'' ! (n mod 10)]"

text \<open>
  \<^verbatim>\<open>
  def summary_stats(img, pvms, bgdata=None):
      dims = np.squeeze(np.array(pvms)).ndim
      if dims == 4:
          pvms.insert(0, np.array(pvms).sum(axis=0))
      elif dims == 3:
          bgpvm = np.ones_like(pvms)
          pvms = [bgpvm - pvms, pvms]
      else:
          raise RuntimeError('Incorrect image dimensions ({0:d})'.format(
              np.array(pvms).ndim))
      if bgdata is not None:
          pvms[0] = bgdata
      if len(pvms) == 4:
          labels = list(FSL_FAST_LABELS.items())
      elif len(pvms) == 2:
          labels = list(zip(['bg', 'fg'], list(range(2))))
      output = {k: {} for k, _ in labels}
      for k, lid in labels:
          mask = np.where(pvms[lid] > 0.5)
          output[k]['mean'] = float(img[mask].mean())
          output[k]['stdv'] = float(img[mask].std())
          output[k]['p95'] = float(np.percentile(img[mask], 95))
          output[k]['p05'] = float(np.percentile(img[mask], 5))
          output[k]['k'] = float(kurtosis(img[mask]))
      return output
  \<close>
  When the list has neither 4 nor 2 entries no branch assigns \<^verbatim>\<open>labels\<close>, and reading it
  raises \<^verbatim>\<open>UnboundLocalError\<close>.
\<close>

definition with_background :: "pvms_arg \<Rightarrow> nat \<Rightarrow> nat \<Rightarrow> py_error + pvm_entry list" where
  "with_background pvms ndim nd =
     (if nd = 4 then
        (case pvms of
           PvmList vs \<Rightarrow> Inr (Map3 (sum_axis0 vs) # map Map3 vs)
         | PvmArray v \<Rightarrow> Inl AttributeError)
      else if nd = 3 then
        (case pvms of
           PvmList vs \<Rightarrow> Inr [Stack4, PyList]
         | PvmArray v \<Rightarrow> Inr [Map3 (map_vol (\<lambda>x. 1 - x) v), Map3 v])
      else Inl (RuntimeError (''Incorrect image dimensions ('' @ digit ndim @ '')'')))"

definition entry_select :: "real vol \<Rightarrow> pvm_entry \<Rightarrow> py_error + real list" where
  "entry_select img e =
     (case e of
        Map3 v \<Rightarrow> where_index img (np_greater (FloatArray v) (1 / 2))
      | Stack4 \<Rightarrow> Inl IndexError
      | PyList \<Rightarrow> Inl TypeError)"

fun stats_loop ::
  "(string \<times> int) list \<Rightarrow> real vol \<Rightarrow> pvm_entry list \<Rightarrow> (string \<times> stats) list
     \<Rightarrow> py_error + (string \<times> stats) list" where
  "stats_loop [] img pvms output = Inr output"
| "stats_loop ((k, lid) # labels) img pvms output =
     bindE (py_index pvms lid) (\<lambda>e.
     bindE (entry_select img e) (\<lambda>sel.
     bindE (describe sel) (\<lambda>st.
       stats_loop labels img pvms (output @ [(k, st)]))))"

definition summary_stats ::
  "real vol \<Rightarrow> pvms_arg \<Rightarrow> real vol option \<Rightarrow> py_error + (string \<times> stats) list" where
  "summary_stats img pvms bgdata =
     bindE (stacked_shape pvms) (\<lambda>sh.
     bindE (with_background pvms (length sh) (squeezed_ndim sh)) (\<lambda>pvms1.
       (let pvms2 = (case bgdata of None \<Rightarrow> pvms1 | Some b \<Rightarrow> pvms1[0 := Map3 b])
        in bindE (if length pvms2 = 4 then Inr FSL_FAST_LABELS
                  else if length pvms2 = 2 then Inr [(''bg'', 0), (''fg'', 1)]
                  else Inl (UnboundLocalError ''labels'')) (\<lambda>labels.
             stats_loop labels img pvms2 []))))"

text \<open>A grid none of whose axes has length 1: stacking maps over it adds an axis that
  \<^verbatim>\<open>np.squeeze\<close> keeps.\<close>

definition no_unit_axis :: "nat \<times> nat \<times> nat \<Rightarrow> bool" where
  "no_unit_axis d = (case d of (nx, ny, nz) \<Rightarrow> nx \<noteq> 1 \<and> ny \<noteq> 1 \<and> nz \<noteq> 1)"

section \<open>\<^verbatim>\<open>rpve\<close> on a store of arrays\<close>

text \<open>
  \<^verbatim>\<open>rpve\<close> assigns into an array in place, so its model makes the arrays objects of a
  store: a reference is a position in the list of all arrays alive, an allocation
  appends one, and a masked assignment \<^verbatim>\<open>a[cond] = v\<close> replaces the array at the
  reference of \<open>a\<close>. An array of the store has a shape of any rank and its elements in C
  order, integer elements being kept as the reals they are. Indexing an array with a
  boolean array (\<^verbatim>\<open>pvms[lid - 1][seg == lid]\<close>) allocates a new array holding the
  selected elements; it raises \<^verbatim>\<open>IndexError\<close> when the shapes differ. The boolean
  arrays and the selections \<^verbatim>\<open>pvmap[pvmap > 0]\<close> are temporaries that nothing assigns
  into; they are values of the model, not objects of the store. A reference outside the
  store does not occur in a Python run; reading it is the error \<open>InvalidRef\<close>.
  \<^verbatim>\<open>np.percentile\<close> raises \<^verbatim>\<open>IndexError\<close> when no element of the copy is positive; the
  copy, clipped, is in the store by then.
\<close>

datatype arr = Arr (shp: "nat list") (elems: "real list")

type_synonym ref = nat

type_synonym store = "arr list"

datatype store_error = Raised py_error | InvalidRef

definition deref :: "store \<Rightarrow> ref \<Rightarrow> store_error + arr" where
  "deref st r = (if r < length st then Inr (st ! r) else Inl InvalidRef)"

definition alloc :: "store \<Rightarrow> arr \<Rightarrow> store \<times> ref" where
  "alloc st a = (st @ [a], length st)"

definition masked_assign :: "store \<Rightarrow> ref \<Rightarrow> (real \<Rightarrow> bool) \<Rightarrow> real \<Rightarrow> store" where
  "masked_assign st r cond v =
     st[r := Arr (shp (st ! r)) (map (\<lambda>x. if cond x then v else x) (elems (st ! r)))]"

definition mask_index :: "arr \<Rightarrow> arr \<Rightarrow> (real \<Rightarrow> bool) \<Rightarrow> store_error + real list" where
  "mask_index a s cond =
     (if shp s = shp a then Inr (map fst (filter (\<lambda>(x, y). cond y) (zip (elems a) (elems s))))
      else Inl (Raised IndexError))"

definition positive_part :: "store \<Rightarrow> ref \<Rightarrow> real list" where
  "positive_part st r = filter (\<lambda>x. 0 < x) (elems (st ! r))"

definition lift_error :: "py_error + 'a \<Rightarrow> store_error + 'a" where
  "lift_error m = (case m of Inl e \<Rightarrow> Inl (Raised e) | Inr x \<Rightarrow> Inr x)"

text \<open>
  \<^verbatim>\<open>
  def rpve(pvms, seg):
      pvfs = {}
      for k, lid in list(FSL_FAST_LABELS.items()):
          if lid == 0:
              continue
          pvmap = pvms[lid - 1][seg == lid]
          pvmap[pvmap < 0.] = 0.
          pvmap[pvmap >= 1.] = 0.
          upth = np.percentile(pvmap[pvmap > 0], 98)
          loth = np.percentile(pvmap[pvmap > 0], 2)
          pvmap[pvmap < loth] = 0
          pvmap[pvmap > upth] = 0
          pvfs[k] = pvmap[pvmap > 0].sum()
      return {k: float(v) for k, v in list(pvfs.items())}
  \<close>
  \<open>pvms\<close> is the Python list of the references of the maps, \<open>seg\<close> the reference of the
  segmentation. The function returns its result, or the exception, with the store it
  leaves behind.
\<close>

definition take_tissue :: "store \<Rightarrow> ref list \<Rightarrow> ref \<Rightarrow> int \<Rightarrow> store_error + real list" where
  "take_tissue st pvms seg lid =
     bindE (lift_error (py_index pvms (lid - 1))) (\<lambda>r.
     bindE (deref st r) (\<lambda>a.
     bindE (deref st seg) (\<lambda>s.
       mask_index a s (\<lambda>y. y = real_of_int lid))))"

fun rpve_loop ::
  "(string \<times> int) list \<Rightarrow> store \<Rightarrow> ref list \<Rightarrow> ref \<Rightarrow> (string \<times> real) list
     \<Rightarrow> (store_error + (string \<times> real) list) \<times> store" where
  "rpve_loop [] st pvms seg pvfs = (Inr pvfs, st)"
| "rpve_loop ((k, lid) # rest) st pvms seg pvfs =
     (if lid = 0 then rpve_loop rest st pvms seg pvfs
      else case take_tissue st pvms seg lid of
             Inl e \<Rightarrow> (Inl e, st)
           | Inr sel \<Rightarrow>
               (case alloc st (Arr [length sel] sel) of (st1, pvmap) \<Rightarrow>
                 (let st2 = masked_assign st1 pvmap (\<lambda>x. x < 0) 0;
                      st3 = masked_assign st2 pvmap (\<lambda>x. 1 \<le> x) 0
                  in case percentile (positive_part st3 pvmap) 98 of
                       Inl e \<Rightarrow> (Inl (Raised e), st3)
                     | Inr upth \<Rightarrow>
                         (case percentile (positive_part st3 pvmap) 2 of
                            Inl e \<Rightarrow> (Inl (Raised e), st3)
                          | Inr loth \<Rightarrow>
                              (let st4 = masked_assign st3 pvmap (\<lambda>x. x < loth) 0;
                                   st5 = masked_assign st4 pvmap (\<lambda>x. upth < x) 0
                               in rpve_loop rest st5 pvms seg
                                    (pvfs @ [(k, sum_list (positive_part st5 pvmap))]))))))"

definition rpve ::
  "store \<Rightarrow> ref list \<Rightarrow> ref \<Rightarrow> (store_error + (string \<times> real) list) \<times> store" where
  "rpve st pvms seg = rpve_loop FSL_FAST_LABELS st pvms seg []"

text \<open>What the masked assignments leave in the copy, as functions of the selected
  elements: \<open>clipped\<close>, the values outside \<open>[0, 1)\<close> zeroed, and \<open>trimmed\<close>, those below the
  2nd and above the 98th percentile of what is still positive zeroed as well. They are
  the arrays \<^verbatim>\<open>rpve\<close> is shown below to append to the store: \<open>clipped\<close> when nothing is
  positive and the percentile raises, \<open>trimmed\<close> otherwise.\<close>

definition clipped :: "real list \<Rightarrow> real list" where
  "clipped sel = map (\<lambda>x. if 1 \<le> x then 0 else x) (map (\<lambda>x. if x < 0 then 0 else x) sel)"

definition trimmed :: "real list \<Rightarrow> real list" where
  "trimmed sel =
     (let upth = interpolate (filter (\<lambda>x. 0 < x) (clipped sel)) 98;
          loth = interpolate (filter (\<lambda>x. 0 < x) (clipped sel)) 2
      in map (\<lambda>x. if upth < x then 0 else x)
           (map (\<lambda>x. if x < loth then 0 else x) (clipped sel)))"

section \<open>\<^verbatim>\<open>art_qi2\<close> and its diagnostic file\<close>

text \<open>
  \<^verbatim>\<open>art_qi2\<close> touches the file system, so its model threads one: a map from absolute
  paths to file contents. What the operating system and the numerical libraries decide
  is a parameter of the model: \<^verbatim>\<open>os.path.abspath\<close>, whether a path can be opened for
  writing (\<^verbatim>\<open>open\<close> raises \<^verbatim>\<open>IOError\<close> otherwise), the histogram and the fit of the chi
  distribution (lines 278 to 304 of the source, which compute the record written to
  the file and the goodness of fit before it is clipped), and \<^verbatim>\<open>json.dump\<close>.
\<close>

type_synonym filesystem = "string \<rightharpoonup> string"

record qi2_fit =
  fit_x :: "real list"
  fit_y :: "real list"
  fit_y_hat :: "real list"
  fit_x_cutoff :: real
  fit_gof :: real

record os_env =
  abspath :: "string \<Rightarrow> string"
  writable :: "string \<Rightarrow> bool"
  chi_fit :: "real list \<Rightarrow> int \<Rightarrow> py_error + qi2_fit"
  json_dump :: "qi2_fit \<Rightarrow> string"

text \<open>\<^verbatim>\<open>open(path, 'a').close()\<close> creates the file, empty, when it does not exist and
  leaves an existing one as it is; \<^verbatim>\<open>open(path, 'w')\<close> followed by the dump replaces the
  content.\<close>

definition open_append :: "os_env \<Rightarrow> filesystem \<Rightarrow> string \<Rightarrow> py_error + filesystem" where
  "open_append env fs path =
     (if writable env path
      then Inr (case fs path of None \<Rightarrow> fs(path \<mapsto> []) | Some content \<Rightarrow> fs)
      else Inl IOError)"

definition open_write ::
  "os_env \<Rightarrow> filesystem \<Rightarrow> string \<Rightarrow> string \<Rightarrow> py_error + filesystem" where
  "open_write env fs path content =
     (if writable env path then Inr (fs(path \<mapsto> content)) else Inl IOError)"

text \<open>
  \<^verbatim>\<open>
  def art_qi2(img, airmask, ncoils=12, erodemask=True,
              out_file='qi2_fitting.txt', min_voxels=1e3):
      out_file = op.abspath(out_file)
      open(out_file, 'a').close()
      if erodemask:
          struc = nd.generate_binary_structure(3, 2)
          airmask = nd.binary_erosion(airmask, structure=struc).astype(np.uint8)
      data = img[airmask > 0]
      if len(data[data > 0]) < min_voxels:
          return 0.0, out_file
      ...                                   # histogram and fit: chi_fit
      gof = 1.0 if gof > 1.0 else gof
      gof = 0.0 if gof < 0.0 else gof
      json_out['gof'] = gof
      with open(out_file, 'w' if PY3 else 'wb') as ofd:
          json.dump(json_out, ofd)
      return gof, out_file
  \<close>
  The function returns its result, or the exception, with the file system it leaves.
\<close>

definition eroded_air :: "ndarray \<Rightarrow> bool \<Rightarrow> ndarray" where
  "eroded_air airmask erodemask =
     (if erodemask then astype_uint8 (binary_erosion (nonzero airmask)) else airmask)"

definition art_qi2 ::
  "os_env \<Rightarrow> filesystem \<Rightarrow> real vol \<Rightarrow> ndarray \<Rightarrow> int \<Rightarrow> bool \<Rightarrow> string \<Rightarrow> real
     \<Rightarrow> (py_error + real \<times> string) \<times> filesystem" where
  "art_qi2 env fs img airmask ncoils erodemask out_file min_voxels =
     (let out = abspath env out_file
      in case open_append env fs out of
           Inl e \<Rightarrow> (Inl e, fs)
         | Inr fs1 \<Rightarrow>
             (case bool_index img (np_greater (eroded_air airmask erodemask) 0) of
                Inl e \<Rightarrow> (Inl e, fs1)
              | Inr data \<Rightarrow>
                  if real (length (filter (\<lambda>x. 0 < x) data)) < min_voxels
                  then (Inr (0, out), fs1)
                  else (case chi_fit env (filter (\<lambda>x. 0 < x) data) ncoils of
                          Inl e \<Rightarrow> (Inl e, fs1)
                        | Inr fit \<Rightarrow>
                            (let gof0 = fit_gof fit;
                                 gof1 = (if gof0 > 1 then 1 else gof0);
                                 gof = (if gof1 < 0 then 0 else gof1);
                                 json_out = fit\<lparr>fit_gof := gof\<rparr>
                             in case open_write env fs1 out (json_dump env json_out) of
                                  Inl e \<Rightarrow> (Inl e, fs1)
                                | Inr fs2 \<Rightarrow> (Inr (gof, out), fs2)))))"

section \<open>The upload of the measures (\<^verbatim>\<open>mriqc/interfaces/webapi.py\<close>)\<close>

text \<open>
  \<^verbatim>\<open>upload_qc_metrics\<close> is modelled from the point where the file of measures has been
  read: \<open>in_data\<close> is the JSON value that \<^verbatim>\<open>json.load\<close> returned. The network is a
  parameter, \<open>post\<close>, that answers a request with a response or with the message of a
  \<^verbatim>\<open>requests.ConnectionError\<close>; the function returns its result, or the exception, with
  the list of the requests it posted. Python's \<^verbatim>\<open>str\<close> of a number or of a JSON value
  that is not a string, and \<^verbatim>\<open>json.dumps\<close>, are parameters too.
\<close>

datatype json =
    JNull
  | JBool bool
  | JNum real
  | JStr string
  | JArr "json list"
  | JObj "(string \<times> json) list"

record response =
  status_code :: int
  resp_text :: string

record request =
  url :: string
  headers :: "(string \<times> string) list"
  payload :: string

record http_env =
  post :: "request \<Rightarrow> string + response"
  dumps :: "(string \<times> json) list \<Rightarrow> string"
  str_json :: "json \<Rightarrow> string"
  str_int :: "int \<Rightarrow> string"

definition SECRET_KEY :: string where
  "SECRET_KEY =
     ''ZUsBaabr6PEbav5DKAHIODEnwpwC58oQTJF7KWvDBPUmBIVFFtw'' @
     ''Od7lQBdz9r9ulJTR1BtxBDqDuY0owxK6LbLB1u1b64ZkIMd46''"

definition META_WHITELIST :: "string list" where
  "META_WHITELIST =
     [''ContrastBolusIngredient'', ''RepetitionTime'', ''TaskName'', ''Manufacturer'',
      ''ManufacturersModelName'', ''MagneticFieldStrength'', ''DeviceSerialNumber'',
      ''SoftwareVersions'', ''HardcopyDeviceSoftwareVersion'', ''ReceiveCoilName'',
      ''GradientSetType'', ''MRTransmitCoilSequence'', ''MatrixCoilMode'',
      ''CoilCombinationMethod'', ''PulseSequenceType'', ''PulseSequenceDetails'',
      ''NumberShots'', ''ParallelReductionFactorInPlane'', ''ParallelAcquisitionTechnique'',
      ''PartialFourier'', ''PartialFourierDirection'', ''PhaseEncodingDirection'',
      ''EffectiveEchoSpacing'', ''TotalReadoutTime'',
      ''EchoTime'', ''InversionTime'', ''SliceTiming'', ''SliceEncodingDirection'',
      ''NumberOfVolumesDiscardedByScanner'', ''NumberOfVolumesDiscardedByUser'',
      ''DelayTime'', ''FlipAngle'', ''MultibandAccelerationFactor'', ''Instructions'',
      ''TaskDescription'', ''CogAtlasID'', ''CogPOID'', ''InstitutionName'',
      ''InstitutionAddress'', ''ConversionSoftware'', ''ConversionSoftwareVersion'',
      ''md5sum'', ''modality'', ''mriqc_pred'', ''software'', ''subject_id'', ''version'']"

text \<open>A Python dictionary as an association list in insertion order: \<^verbatim>\<open>d[k] = v\<close>
  replaces the value of a key that is there and appends a new key; \<^verbatim>\<open>d.update(e)\<close>
  does so for every item of \<open>e\<close>.\<close>

fun dict_set :: "(string \<times> 'a) list \<Rightarrow> string \<Rightarrow> 'a \<Rightarrow> (string \<times> 'a) list" where
  "dict_set [] k v = [(k, v)]"
| "dict_set ((k', v') # d) k v = (if k' = k then (k, v) # d else (k', v') # dict_set d k v)"

definition dict_update :: "(string \<times> 'a) list \<Rightarrow> (string \<times> 'a) list \<Rightarrow> (string \<times> 'a) list" where
  "dict_update d e = fold (\<lambda>(k, v) acc. dict_set acc k v) e d"

definition whitelisted :: "(string \<times> json) list \<Rightarrow> (string \<times> json) list" where
  "whitelisted items = filter (\<lambda>(k, v). k \<in> set META_WHITELIST) items"

text \<open>\<^verbatim>\<open>x.items()\<close> and \<^verbatim>\<open>x.get\<close> on a JSON value: only an object has them.\<close>

definition items_of :: "json \<Rightarrow> py_error + (string \<times> json) list" where
  "items_of x = (case x of JObj items \<Rightarrow> Inr items | _ \<Rightarrow> Inl AttributeError)"

definition percent_s :: "http_env \<Rightarrow> json \<Rightarrow> string" where
  "percent_s env x = (case x of JStr s \<Rightarrow> s | _ \<Rightarrow> str_json env x)"

text \<open>
  \<^verbatim>\<open>
  def upload_qc_metrics(in_iqms, addr, port, email=None):
      with open(in_iqms, 'r') as input_json:
          in_data = load(input_json)
      data = {k: v for k, v in list(in_data.items()) if k != 'metadata'}
      modality = in_data['metadata'].get('modality', 'None')
      if modality not in ('T1w', 'bold'):
          errmsg = ('Submitting to MRIQCWebAPI: image modality should be "bold" or "T1w", '
                    '(found "%s")' % modality)
          return Bunch(status_code=1, text=errmsg)
      try:
          data.update({k: v for k, v in list(
              in_data['metadata'].items()) if k in META_WHITELIST})
      except KeyError:
          pass
      try:
          data.update({k: v for k, v in list(
              in_data['settings'].items()) if k in META_WHITELIST})
      except KeyError:
          pass
      if email:
          data['email'] = email
      headers = {'token': SECRET_KEY, "Content-Type": "application/json"}
      try:
          response = requests.post(
              'http://{}:{}/{}'.format(addr, port, modality),
              headers=headers, data=dumps(data))
      except requests.ConnectionError as err:
          errmsg = 'QC metrics failed to upload due to connection error shown below:\n%s' % err
          return Bunch(status_code=1, text=errmsg)
      return response
  \<close>
\<close>

definition settings_items :: "(string \<times> json) list \<Rightarrow> py_error + (string \<times> json) list" where
  "settings_items in_items =
     (case map_of in_items ''settings'' of
        None \<Rightarrow> Inr []
      | Some s \<Rightarrow> bindE (items_of s) (\<lambda>items. Inr (whitelisted items)))"

definition send ::
  "http_env \<Rightarrow> (string \<times> json) list \<Rightarrow> string \<Rightarrow> int \<Rightarrow> string
     \<Rightarrow> (py_error + response) \<times> request list" where
  "send env data addr port modality =
     (let req = \<lparr>url = ''http://'' @ addr @ '':'' @ str_int env port @ ''/'' @ modality,
                 headers = [(''token'', SECRET_KEY), (''Content-Type'', ''application/json'')],
                 payload = dumps env data\<rparr>
      in case post env req of
           Inl err \<Rightarrow>
             (Inr \<lparr>status_code = 1,
                   resp_text = ''QC metrics failed to upload due to connection error shown below:''
                               @ [CHR 0x0A] @ err\<rparr>, [req])
         | Inr resp \<Rightarrow> (Inr resp, [req]))"

definition upload_qc_metrics ::
  "http_env \<Rightarrow> json \<Rightarrow> string \<Rightarrow> int \<Rightarrow> string option
     \<Rightarrow> (py_error + response) \<times> request list" where
  "upload_qc_metrics env in_data addr port email =
     (case bindE (items_of in_data) (\<lambda>in_items.
           bindE (dict_get in_items ''metadata'') (\<lambda>metadata.
           bindE (items_of metadata) (\<lambda>md.
             Inr (in_items, md)))) of
        Inl e \<Rightarrow> (Inl e, [])
      | Inr (in_items, md) \<Rightarrow>
          (let data = filter (\<lambda>(k, v). k \<noteq> ''metadata'') in_items;
               modality = (case map_of md ''modality'' of None \<Rightarrow> JStr ''None'' | Some m \<Rightarrow> m)
           in if modality \<noteq> JStr ''T1w'' \<and> modality \<noteq> JStr ''bold''
              then (Inr \<lparr>status_code = 1,
                         resp_text =
                           ''Submitting to MRIQCWebAPI: image modality should be \"bold\" or \"T1w\", ''
                           @ ''(found \"'' @ percent_s env modality @ ''\")''\<rparr>, [])
              else (case settings_items in_items of
                      Inl e \<Rightarrow> (Inl e, [])
                    | Inr settings \<Rightarrow>
                        (let data1 = dict_update (dict_update data (whitelisted md)) settings;
                             data2 = (case email of
                                        None \<Rightarrow> data1
                                      | Some e \<Rightarrow> if e = [] then data1
                                                  else dict_set data1 ''email'' (JStr e))
                         in send env data2 addr port (percent_s env modality)))))"

section \<open>Properties of the array positions and of the binary opening\<close>

lemma unravel_ravel: "inside d p \<Longrightarrow> unravel d (ravel d p) = p"
proof -
  obtain nx ny nz where d: "d = (nx, ny, nz)" by (cases d) auto
  obtain x y z where p: "p = (x, y, z)" by (cases p) auto
  assume "inside d p"
  then have b: "x < nx" "y < ny" "z < nz" by (simp_all add: inside_def d p)
  have m: "((x * ny + y) * nz + z) mod nz = z" using b by simp
  have q: "((x * ny + y) * nz + z) div nz = x * ny + y" using b by simp
  have q2: "((x * ny + y) * nz + z) div (ny * nz) = x"
  proof -
    have "((x * ny + y) * nz + z) div (nz * ny) = ((x * ny + y) * nz + z) div nz div ny"
      by (rule div_mult2_eq)
    also have "\<dots> = x" using b by (simp add: q)
    finally show ?thesis by (simp add: mult.commute)
  qed
  show ?thesis using b by (simp add: unravel_def ravel_def d p m q q2 del: div_mult_self3 div_mult_self4)
qed

lemma ravel_unravel: "i < vsize d \<Longrightarrow> ravel d (unravel d i) = i"
proof -
  obtain nx ny nz where d: "d = (nx, ny, nz)" by (cases d) auto
  assume "i < vsize d"
  have "i div (ny * nz) = i div nz div ny"
    by (metis div_mult2_eq mult.commute)
  then show ?thesis
    by (simp add: ravel_def unravel_def d)
qed

lemma inside_unravel: "i < vsize d \<Longrightarrow> inside d (unravel d i)"
proof -
  obtain nx ny nz where d: "d = (nx, ny, nz)" by (cases d) auto
  assume a: "i < vsize d"
  then have lt: "i < nx * (ny * nz)" by (simp add: vsize_def d mult.assoc)
  then have pos: "0 < ny" "0 < nz" by (auto intro: Nat.gr0I)
  have "i div (ny * nz) < nx" using lt pos
    by (simp add: less_mult_imp_div_less mult.commute)
  then show ?thesis using pos by (simp add: inside_def unravel_def d)
qed

lemma ravel_less: "inside d p \<Longrightarrow> ravel d p < vsize d"
proof -
  obtain nx ny nz where d: "d = (nx, ny, nz)" by (cases d) auto
  obtain x y z where p: "p = (x, y, z)" by (cases p) auto
  assume "inside d p"
  then have b: "x < nx" "y < ny" "z < nz" by (simp_all add: inside_def d p)
  have "x * ny + y < nx * ny"
  proof -
    have "x * ny + y < x * ny + ny" using b by simp
    also have "\<dots> = (Suc x) * ny" by simp
    also have "\<dots> \<le> nx * ny" using b by (intro mult_le_mono1) simp
    finally show ?thesis .
  qed
  then have le: "x * ny + y + 1 \<le> nx * ny" by simp
  have "(x * ny + y) * nz + z < (x * ny + y) * nz + nz" using b by simp
  also have "\<dots> = (x * ny + y + 1) * nz" by (simp add: algebra_simps)
  also have "\<dots> \<le> (nx * ny) * nz" using le by (rule mult_le_mono1)
  finally show ?thesis by (simp add: ravel_def vsize_def d p)
qed

lemma voxel_tabulate: "inside d p \<Longrightarrow> voxel (tabulate d f) p = f p"
  by (simp add: voxel_def tabulate_def ravel_less unravel_ravel)

lemma flat_tabulate: "i < vsize d \<Longrightarrow> flat (tabulate d f) ! i = f (unravel d i)"
  by (simp add: tabulate_def)

lemma dims_tabulate: "dims (tabulate d f) = d"
  by (simp add: tabulate_def)

lemma length_tabulate: "length (flat (tabulate d f)) = vsize d"
  by (simp add: tabulate_def)

lemma shift_inside: "shift d p off = Some q \<Longrightarrow> inside d q"
  by (cases d; cases p; cases off) (auto simp: shift_def inside_def Let_def split: if_splits)

lemma shift_back: "inside d p \<Longrightarrow> shift d p (neg_offset off) = Some q \<Longrightarrow> shift d q off = Some p"
  by (cases d; cases p; cases off) (auto simp: shift_def inside_def neg_offset_def Let_def split: if_splits)

lemma dims_erosion: "dims (binary_erosion b) = dims b"
  by (simp add: binary_erosion_def dims_tabulate)

lemma opening_subset:
  assumes i: "i < vsize (dims b)" and o: "flat (binary_opening b) ! i"
  shows "flat b ! i"
proof -
  define d where "d = dims b"
  define p where "p = unravel d i"
  have inp: "inside d p" using i by (simp add: p_def d_def inside_unravel)
  from o have "list_ex (\<lambda>off. case shift d p (neg_offset off) of None \<Rightarrow> False
                 | Some q \<Rightarrow> voxel (binary_erosion b) q) generate_binary_structure"
    using i by (simp add: binary_opening_def binary_dilation_def dims_erosion flat_tabulate d_def p_def)
  then obtain off q where off: "off \<in> set generate_binary_structure"
      and q: "shift d p (neg_offset off) = Some q" and e: "voxel (binary_erosion b) q"
    by (auto simp: list_ex_iff split: option.splits)
  have inq: "inside d q" using q by (rule shift_inside)
  have ret: "shift d q off = Some p" using inp q by (rule shift_back)
  from e inq have "list_all (\<lambda>off. case shift d q off of None \<Rightarrow> False | Some r \<Rightarrow> voxel b r)
      generate_binary_structure"
    by (simp add: binary_erosion_def voxel_tabulate d_def)
  with off ret have "voxel b p" by (auto simp: list_all_iff)
  then show ?thesis using i by (simp add: voxel_def p_def d_def ravel_unravel)
qed

section \<open>Properties of \<^verbatim>\<open>volume_fraction\<close>\<close>

lemma volume_fraction_three:
  "volume_fraction [csf, gm, wm] =
     (let a = sum_list (flat csf); b = sum_list (flat gm); c = sum_list (flat wm)
      in Inr [(''csf'', fdiv a (a + b + c)), (''gm'', fdiv b (a + b + c)),
              (''wm'', fdiv c (a + b + c))])"
  by (simp add: volume_fraction_def FSL_FAST_LABELS_def py_index_def Let_def)

lemma sum_list_nonneg_real:
  fixes xs :: "real list"
  shows "(\<And>x. x \<in> set xs \<Longrightarrow> 0 \<le> x) \<Longrightarrow> 0 \<le> sum_list xs"
  by (induction xs) auto

text \<open>
  C4. For three tissue maps with values in \<open>[0, 1]\<close> and a strictly positive total,
  \<^verbatim>\<open>volume_fraction\<close> returns three finite fractions, one per tissue, each in
  \<open>[0, 1]\<close>, and their sum is exactly 1.
\<close>

theorem volume_fraction_sums_to_one:
  assumes vals: "\<forall>v \<in> set [csf, gm, wm]. \<forall>x \<in> set (flat v). 0 \<le> x \<and> x \<le> 1"
    and pos: "0 < sum_list (flat csf) + sum_list (flat gm) + sum_list (flat wm)"
  shows "\<exists>f_csf f_gm f_wm.
           volume_fraction [csf, gm, wm] =
             Inr [(''csf'', Some f_csf), (''gm'', Some f_gm), (''wm'', Some f_wm)]
           \<and> 0 \<le> f_csf \<and> f_csf \<le> 1 \<and> 0 \<le> f_gm \<and> f_gm \<le> 1 \<and> 0 \<le> f_wm \<and> f_wm \<le> 1
           \<and> f_csf + f_gm + f_wm = 1"
proof -
  define a where "a = sum_list (flat csf)"
  define b where "b = sum_list (flat gm)"
  define c where "c = sum_list (flat wm)"
  define t where "t = a + b + c"
  have a0: "0 \<le> a" unfolding a_def using vals by (intro sum_list_nonneg_real) simp
  have b0: "0 \<le> b" unfolding b_def using vals by (intro sum_list_nonneg_real) simp
  have c0: "0 \<le> c" unfolding c_def using vals by (intro sum_list_nonneg_real) simp
  have t0: "0 < t" using pos by (simp add: t_def a_def b_def c_def)
  have eq: "volume_fraction [csf, gm, wm] =
      Inr [(''csf'', Some (a / t)), (''gm'', Some (b / t)), (''wm'', Some (c / t))]"
    using t0 by (simp add: volume_fraction_three fdiv_def Let_def a_def b_def c_def t_def)
  have sum1: "a / t + b / t + c / t = 1"
  proof -
    have "a / t + b / t + c / t = (a + b + c) / t" by (simp add: add_divide_distrib)
    also have "\<dots> = 1" using t0 by (simp add: t_def)
    finally show ?thesis .
  qed
  have le: "a \<le> t" "b \<le> t" "c \<le> t" using a0 b0 c0 by (simp_all add: t_def)
  have bounds: "0 \<le> a / t" "a / t \<le> 1" "0 \<le> b / t" "b / t \<le> 1" "0 \<le> c / t" "c / t \<le> 1"
    using a0 b0 c0 t0 le by simp_all
  show ?thesis using eq sum1 bounds by blast
qed

theorem volume_fraction_sums_to_one_witness:
  "volume_fraction [Vol (1, 1, 2) [1, 0], Vol (1, 1, 2) [1/2, 1/2], Vol (1, 1, 2) [0, 1]] =
     Inr [(''csf'', Some (1/3)), (''gm'', Some (1/3)), (''wm'', Some (1/3))]"
proof -
  have "\<exists>f_csf f_gm f_wm.
           volume_fraction [Vol (1, 1, 2) [1, 0], Vol (1, 1, 2) [1/2, 1/2], Vol (1, 1, 2) [0, 1]] =
             Inr [(''csf'', Some f_csf), (''gm'', Some f_gm), (''wm'', Some f_wm)]
           \<and> 0 \<le> f_csf \<and> f_csf \<le> 1 \<and> 0 \<le> f_gm \<and> f_gm \<le> 1 \<and> 0 \<le> f_wm \<and> f_wm \<le> 1
           \<and> f_csf + f_gm + f_wm = 1"
    by (rule volume_fraction_sums_to_one) simp_all
  then show ?thesis
    by (simp add: volume_fraction_three fdiv_def)
qed

section \<open>Properties of mask preparation and \<^verbatim>\<open>snr\<close>\<close>

lemma bindE_simps [simp]: "bindE (Inr x) f = f x" "bindE (Inl e) f = Inl e"
  by (simp_all add: bindE_def)

lemma bindE_eq_Inr: "bindE m f = Inr y \<longleftrightarrow> (\<exists>x. m = Inr x \<and> f x = Inr y)"
  by (cases m) simp_all

lemma dims_map_vol [simp]: "dims (map_vol f v) = dims v"
  by (cases v) simp

lemma flat_map_vol [simp]: "flat (map_vol f v) = map f (flat v)"
  by (cases v) simp

lemma binarize_float:
  "binarize (FloatArray v) label = Inr (FloatArray (map_vol (\<lambda>x. if 95 / 100 < x then 1 else 0) v))"
proof -
  have "(\<lambda>x. if x < 1 then 0 else x) \<circ> (\<lambda>x. if x > 95 / 100 then 1 else x)
          = (\<lambda>x::real. if 95 / 100 < x then 1 else 0)"
    by (rule ext) auto
  then show ?thesis
    by (simp add: binarize_def vol.map_comp)
qed

lemma binarize_int:
  "resolve_label label = Inr l \<Longrightarrow>
   binarize (IntArray v) label =
     Inr (IntArray (map_vol (\<lambda>x. if l = 0 then 1 else if x = l then 1 else 0) v))"
proof -
  have "(\<lambda>x. if x = l then 1 else x) \<circ> (\<lambda>x. if x \<noteq> l then 0 else x)
          = (\<lambda>x::int. if l = 0 then 1 else if x = l then 1 else 0)"
    by (rule ext) auto
  moreover assume "resolve_label label = Inr l"
  ultimately show ?thesis
    by (simp add: binarize_def vol.map_comp)
qed

lemma binarize_binary:
  assumes "binarize m label = Inr r"
  shows "binary_mask r \<and> shape r = shape m \<and> (wf_ndarray m \<longrightarrow> wf_ndarray r)"
proof (cases m)
  case (IntArray v)
  with assms obtain l where l: "resolve_label label = Inr l"
    by (auto simp: binarize_def bindE_eq_Inr)
  show ?thesis using assms unfolding IntArray binarize_int [OF l]
    by (auto simp: binary_mask_def shape_def wf_ndarray_def wf_vol_def list_all_iff)
next
  case (FloatArray v)
  show ?thesis using assms unfolding FloatArray binarize_float
    by (auto simp: binary_mask_def shape_def wf_ndarray_def wf_vol_def list_all_iff)
qed

lemma dims_opening [simp]: "dims (binary_opening b) = dims b"
  by (simp add: binary_opening_def binary_dilation_def binary_erosion_def dims_tabulate)

lemma length_opening [simp]: "length (flat (binary_opening b)) = vsize (dims b)"
  by (simp add: binary_opening_def binary_dilation_def binary_erosion_def dims_tabulate length_tabulate)

lemma shape_nonzero [simp]: "dims (nonzero m) = shape m"
  by (cases m) (simp_all add: nonzero_def shape_def)

lemma astype_uint8_binary:
  "binary_mask (astype_uint8 b) \<and> shape (astype_uint8 b) = dims b
     \<and> wf_ndarray (astype_uint8 b) = wf_vol b"
  by (auto simp: astype_uint8_def binary_mask_def shape_def wf_ndarray_def wf_vol_def
      list_all_iff)

lemma prepare_mask_binary:
  assumes "prepare_mask m label erode = Inr r" and "wf_ndarray m"
  shows "binary_mask r \<and> shape r = shape m \<and> wf_ndarray r"
proof -
  from assms(1) obtain b where b: "binarize m label = Inr b"
    and r: "r = (if erode then astype_uint8 (binary_opening (nonzero b)) else b)"
    by (auto simp: prepare_mask_def bindE_eq_Inr)
  from binarize_binary [OF b] assms(2)
  have bb: "binary_mask b" "shape b = shape m" "wf_ndarray b" by simp_all
  show ?thesis
  proof (cases erode)
    case True
    then show ?thesis using bb
      by (simp add: r astype_uint8_binary wf_vol_def)
  next
    case False
    then show ?thesis using bb by (simp add: r)
  qed
qed

lemma sum_list_binary_real:
  fixes xs :: "real list"
  shows "list_all (\<lambda>x. x = 0 \<or> x = 1) xs \<Longrightarrow> sum_list xs = real (length (filter (\<lambda>x. 0 < x) xs))"
  by (induction xs) auto

lemma sum_list_binary_int:
  fixes xs :: "int list"
  shows "list_all (\<lambda>x. x = 0 \<or> x = 1) xs \<Longrightarrow> sum_list xs = int (length (filter (\<lambda>x. 0 < x) xs))"
  by (induction xs) auto

lemma length_select:
  "length xs = length bs \<Longrightarrow> length (filter snd (zip xs bs)) = length (filter id bs)"
  by (induction xs bs rule: list_induct2) auto

lemma np_sum_counts:
  assumes "binary_mask m"
  shows "np_sum m = real (length (filter id (flat (np_greater m 0))))"
proof (cases m)
  case (IntArray v)
  then show ?thesis using assms sum_list_binary_int [of "flat v"]
    by (simp add: np_sum_def np_greater_def binary_mask_def filter_map comp_def)
next
  case (FloatArray v)
  then show ?thesis using assms sum_list_binary_real [of "flat v"]
    by (simp add: np_sum_def np_greater_def binary_mask_def filter_map comp_def)
qed

lemma dims_greater [simp]: "dims (np_greater m t) = shape m"
  by (cases m) (simp_all add: np_greater_def shape_def)

lemma length_greater: "wf_ndarray m \<Longrightarrow> length (flat (np_greater m t)) = vsize (shape m)"
  by (cases m) (simp_all add: np_greater_def shape_def wf_ndarray_def wf_vol_def)

lemma np_sum_selection:
  assumes "binary_mask m" "wf_ndarray m" "wf_vol img" "bool_index img (np_greater m 0) = Inr sel"
  shows "np_sum m = real (length sel)"
proof -
  from assms(4) have d: "shape m = dims img"
    and sel: "sel = map fst (filter snd (zip (flat img) (flat (np_greater m 0))))"
    by (auto simp: bool_index_def split: if_splits)
  have "length (flat img) = length (flat (np_greater m 0))"
    using assms(2,3) d by (simp add: length_greater wf_vol_def)
  then show ?thesis
    by (simp add: np_sum_counts [OF assms(1)] sel length_select)
qed

lemma median_Some: "xs \<noteq> [] \<Longrightarrow> \<exists>m. median xs = Some m"
  by (simp add: median_def)

lemma sum_list_sq_nonneg: "0 \<le> (\<Sum>x\<leftarrow>xs. (x - (c::real))\<^sup>2)"
  by (induction xs) auto

text \<open>
  What \<^verbatim>\<open>snr\<close> computes: when the prepared foreground selection \<open>fg\<close> has at least two
  voxels, the median \<open>m\<close> of \<open>fg\<close> divided by the root of the squared deviations of
  \<open>fg\<close> from \<open>m\<close> over \<open>n - 1\<close>. Numerator and denominator come from the same
  selection, \<^verbatim>\<open>np.sum(bgmask)\<close> being its number of voxels; the deviations are taken
  from the median (\<^verbatim>\<open>bg_mean = fg_mean\<close>), and the quotient is not finite when the
  denominator is 0.
\<close>

lemma snr_single_region:
  assumes wf: "wf_vol img" "wf_ndarray smask"
    and lbl: "resolve_label fglabel = Inr l"
    and prep: "prepare_mask smask (Num l) erode = Inr fgmask"
    and sel: "bool_index img (np_greater fgmask 0) = Inr fg"
    and n: "2 \<le> length fg"
  shows "\<exists>m. median fg = Some m \<and>
           snr img smask erode fglabel =
             Inr (fdiv m (sqrt ((\<Sum>x\<leftarrow>fg. (x - m)\<^sup>2) / (real (length fg) - 1))))"
proof -
  from n have ne: "fg \<noteq> []" by auto
  then obtain m where m: "median fg = Some m" using median_Some by blast
  from prepare_mask_binary [OF prep wf(2)]
  have "np_sum fgmask = real (length fg)"
    using np_sum_selection [of fgmask img fg] wf(1) sel by simp
  moreover have "real (length fg) - 1 \<noteq> 0" using n by simp
  moreover have "0 \<le> (\<Sum>x\<leftarrow>fg. (x - m)\<^sup>2) / (real (length fg) - 1)"
    using n sum_list_sq_nonneg [of m fg] by simp
  ultimately have "snr img smask erode fglabel =
      Inr (fdiv m (sqrt ((\<Sum>x\<leftarrow>fg. (x - m)\<^sup>2) / (real (length fg) - 1))))"
    using ne by (simp add: snr_def lbl prep sel m Let_def sum_sq_dev_def ndiv_def nsqrt_def fdiv_def)
  with m show ?thesis by blast
qed

lemma sel0:
  "bool_index (Vol (2, 2, 2) [4, 5, 12, 100, 0, 0, 0, 0])
     (np_greater (IntArray (Vol (2, 2, 2) [1, 1, 1, 0, 0, 0, 0, 0])) 0) = Inr [4, 5, 12]"
  by (simp add: bool_index_def np_greater_def)

lemma prep0:
  "prepare_mask (IntArray (Vol (2, 2, 2) [1, 1, 1, 0, 0, 0, 0, 0])) (Num 1) False =
     Inr (IntArray (Vol (2, 2, 2) [1, 1, 1, 0, 0, 0, 0, 0]))"
  by (simp add: prepare_mask_def binarize_def resolve_label_def)

lemma med0: "median [4, 5, 12] = Some 5"
  by (simp add: median_def)

text \<open>On a volume of 2x2x2 voxels whose first three are foreground, with intensities
  4, 5 and 12: the median is 5, the deviations from it give
  \<open>sqrt ((1 + 0 + 49) / 2) = 5\<close>, and \<^verbatim>\<open>snr\<close> is 1.\<close>

lemma snr_single_region_example:
  "snr (Vol (2, 2, 2) [4, 5, 12, 100, 0, 0, 0, 0])
     (IntArray (Vol (2, 2, 2) [1, 1, 1, 0, 0, 0, 0, 0])) False (Num 1) = Inr (Some 1)"
proof -
  have "\<exists>m. median [4, 5, 12] = Some m \<and>
      snr (Vol (2, 2, 2) [4, 5, 12, 100, 0, 0, 0, 0])
        (IntArray (Vol (2, 2, 2) [1, 1, 1, 0, 0, 0, 0, 0])) False (Num 1) =
        Inr (fdiv m (sqrt ((\<Sum>x\<leftarrow>[4, 5, 12]. (x - m)\<^sup>2)
                            / (real (length [4, 5, 12 :: real]) - 1))))"
    by (rule snr_single_region [OF _ _ _ prep0 sel0])
       (simp_all add: wf_vol_def wf_ndarray_def vsize_def resolve_label_def)
  then show ?thesis
    by (simp add: med0 fdiv_def)
qed

lemma bessel0: "bessel_std [4, 5, 12] = Some (sqrt 19)"
  by (simp add: bessel_std_def mean_def fdiv_def sum_sq_dev_def ndiv_def nsqrt_def
      power2_eq_square)

text \<open>
  C1. \<^verbatim>\<open>snr\<close> takes its numerator and its denominator from the same foreground
  selection, but the denominator is not the Bessel-corrected standard deviation of the
  selection: the deviations are taken from the median. On the volume above the mask
  is prepared to itself, the selection is 4, 5, 12 and \<^verbatim>\<open>snr\<close> returns 1, while the
  standard deviation with the \<open>n - 1\<close> normaliser is \<open>sqrt 19\<close> (the mean is 7) and the
  median over it is \<open>5 / sqrt 19\<close>.
\<close>

theorem snr_centres_on_median:
  "prepare_mask (IntArray (Vol (2, 2, 2) [1, 1, 1, 0, 0, 0, 0, 0])) (Num 1) False =
     Inr (IntArray (Vol (2, 2, 2) [1, 1, 1, 0, 0, 0, 0, 0]))
   \<and> bool_index (Vol (2, 2, 2) [4, 5, 12, 100, 0, 0, 0, 0])
       (np_greater (IntArray (Vol (2, 2, 2) [1, 1, 1, 0, 0, 0, 0, 0])) 0) = Inr [4, 5, 12]
   \<and> snr (Vol (2, 2, 2) [4, 5, 12, 100, 0, 0, 0, 0])
       (IntArray (Vol (2, 2, 2) [1, 1, 1, 0, 0, 0, 0, 0])) False (Num 1) = Inr (Some 1)
   \<and> ndiv (median [4, 5, 12]) (bessel_std [4, 5, 12]) = Some (5 / sqrt 19)
   \<and> 5 / sqrt 19 \<noteq> (1 :: real)"
proof -
  have s: "snr (Vol (2, 2, 2) [4, 5, 12, 100, 0, 0, 0, 0])
       (IntArray (Vol (2, 2, 2) [1, 1, 1, 0, 0, 0, 0, 0])) False (Num 1) = Inr (Some 1)"
    by (simp add: snr_def resolve_label_def prep0 sel0 med0 sum_sq_dev_def np_sum_def ndiv_def
        nsqrt_def fdiv_def)
  have ne: "sqrt 19 \<noteq> 5"
  proof
    assume "sqrt 19 = 5"
    then have "(sqrt 19)\<^sup>2 = 5\<^sup>2" by simp
    then show False by simp
  qed
  have q: "5 / sqrt 19 \<noteq> (1 :: real)" using ne by (simp add: field_simps)
  have d: "ndiv (median [4, 5, 12]) (bessel_std [4, 5, 12]) = Some (5 / sqrt 19)"
    by (simp add: med0 bessel0 ndiv_def fdiv_def)
  show ?thesis using prep0 sel0 s d q by simp
qed

text \<open>
  C7. On a mask of floating dtype, \<^verbatim>\<open>_prepare_mask\<close> without erosion sets exactly the
  voxels whose value is strictly greater than 0.95 to 1 and all others to 0. With
  erosion the result is an integer array of 0 and 1 of the same shape in which every
  voxel whose value is at most 0.95 is 0 (the opening only removes voxels).
\<close>

theorem prepare_mask_float_threshold:
  assumes wf: "wf_vol v"
  shows "prepare_mask (FloatArray v) label False =
           Inr (FloatArray (map_vol (\<lambda>x. if 95 / 100 < x then 1 else 0) v))
       \<and> (\<exists>w. prepare_mask (FloatArray v) label True = Inr (IntArray w)
              \<and> dims w = dims v \<and> length (flat w) = length (flat v)
              \<and> (\<forall>i < length (flat v). (flat w ! i = 0 \<or> flat w ! i = 1)
                    \<and> (flat v ! i \<le> 95 / 100 \<longrightarrow> flat w ! i = 0)))"
proof -
  define t where "t = map_vol (\<lambda>x::real. if 95 / 100 < x then 1 else (0::real)) v"
  define b where "b = binary_opening (nonzero (FloatArray t))"
  define w where "w = map_vol (\<lambda>q. if q then 1 else (0::int)) b"
  have off: "prepare_mask (FloatArray v) label False = Inr (FloatArray t)"
    by (simp add: prepare_mask_def binarize_float t_def)
  have on: "prepare_mask (FloatArray v) label True = Inr (IntArray w)"
    by (simp add: prepare_mask_def binarize_float astype_uint8_def w_def b_def t_def)
  have dw: "dims w = dims v" by (simp add: w_def b_def t_def shape_def)
  have lb: "length (flat b) = length (flat v)"
    using wf by (simp add: b_def t_def shape_def wf_vol_def)
  have lw: "length (flat w) = length (flat v)" using lb by (simp add: w_def)
  have vox: "(flat w ! i = 0 \<or> flat w ! i = 1) \<and> (flat v ! i \<le> 95 / 100 \<longrightarrow> flat w ! i = 0)"
    if i: "i < length (flat v)" for i
  proof -
    have ib: "i < length (flat b)" using i lb by simp
    have wi: "flat w ! i = (if flat b ! i then 1 else 0)" using ib by (simp add: w_def)
    have "\<not> flat b ! i" if low: "flat v ! i \<le> 95 / 100"
    proof
      assume "flat b ! i"
      moreover have "i < vsize (dims (nonzero (FloatArray t)))"
        using i wf by (simp add: t_def shape_def wf_vol_def)
      ultimately have "flat (nonzero (FloatArray t)) ! i"
        unfolding b_def by (rule opening_subset [rotated])
      then show False using i low by (simp add: nonzero_def t_def)
    qed
    then show ?thesis by (simp add: wi)
  qed
  have "\<exists>w. prepare_mask (FloatArray v) label True = Inr (IntArray w)
              \<and> dims w = dims v \<and> length (flat w) = length (flat v)
              \<and> (\<forall>i < length (flat v). (flat w ! i = 0 \<or> flat w ! i = 1)
                    \<and> (flat v ! i \<le> 95 / 100 \<longrightarrow> flat w ! i = 0))"
    using on dw lw vox by (intro exI [of _ w]) simp
  with off show ?thesis by (simp add: t_def)
qed

text \<open>The theorem at a mask holding 0.95 and 1.\<close>

theorem prepare_mask_float_threshold_witness:
  "prepare_mask (FloatArray (Vol (1, 1, 2) [95 / 100, 1])) (Num 1) False =
     Inr (FloatArray (Vol (1, 1, 2) [0, 1]))
   \<and> (\<exists>w. prepare_mask (FloatArray (Vol (1, 1, 2) [95 / 100, 1])) (Num 1) True = Inr (IntArray w)
          \<and> flat w ! 0 = 0)"
proof -
  have wf: "wf_vol (Vol (1, 1, 2) [95 / 100, 1 :: real])"
    by (simp add: wf_vol_def vsize_def)
  from prepare_mask_float_threshold [OF wf, of "Num 1"]
  obtain w where a: "prepare_mask (FloatArray (Vol (1, 1, 2) [95 / 100, 1])) (Num 1) False =
      Inr (FloatArray (map_vol (\<lambda>x. if 95 / 100 < x then 1 else 0) (Vol (1, 1, 2) [95 / 100, 1 :: real])))"
    and b: "prepare_mask (FloatArray (Vol (1, 1, 2) [95 / 100, 1])) (Num 1) True = Inr (IntArray w)"
    and c: "\<forall>i < length (flat (Vol (1, 1, 2) [95 / 100, 1 :: real])).
              (flat w ! i = 0 \<or> flat w ! i = 1)
              \<and> (flat (Vol (1, 1, 2) [95 / 100, 1 :: real]) ! i \<le> 95 / 100 \<longrightarrow> flat w ! i = 0)"
    by blast
  from c have "flat w ! 0 = 0" by simp
  with a b show ?thesis by simp
qed

text \<open>A voxel whose value is exactly 0.95 is not greater than 0.95: it ends up as
  background.\<close>

theorem prepare_mask_boundary_counterexample:
  "prepare_mask (FloatArray (Vol (1, 1, 1) [95 / 100])) (Num 1) False =
     Inr (FloatArray (Vol (1, 1, 1) [0]))"
  by (simp add: prepare_mask_def binarize_def)

section \<open>Properties of \<^verbatim>\<open>snr_dietrich\<close>, \<^verbatim>\<open>cnr\<close> and \<^verbatim>\<open>cjv\<close>\<close>

lemma rayleigh_factor_ge1: "1 \<le> sqrt (2 / (4 - pi))"
proof -
  have "4 - pi \<le> 2" using pi_ge_two by simp
  moreover have "0 < 4 - pi" using pi_less_4 by simp
  ultimately have "1 \<le> 2 / (4 - pi)" by (simp add: field_simps)
  then show ?thesis by simp
qed

text \<open>
  C6. With \<open>fg\<close> the prepared foreground selection and \<open>air\<close> the prepared air
  selection, \<^verbatim>\<open>snr_dietrich\<close> returns \<open>-1\<close> when the corrected noise scale
  \<open>mad air * sqrt (2 / (4 - pi))\<close> is below \<open>1 / 1000\<close>, and otherwise the median of
  \<open>fg\<close> divided by that scale; a scale that is \<^verbatim>\<open>nan\<close> (no air voxel) is not below
  the bound, and the quotient is \<^verbatim>\<open>nan\<close>.
\<close>

theorem snr_dietrich_rayleigh:
  assumes lbl: "resolve_label fglabel = Inr l"
    and fgm: "prepare_mask smask (Num l) erode = Inr fgmask"
    and bgm: "prepare_mask airmask (Num 1) erode = Inr bgmask"
    and fg: "bool_index img (np_greater fgmask 0) = Inr fg"
    and air: "bool_index img (np_greater bgmask 0) = Inr air"
  shows "(\<forall>s. mad c air = Some s \<and> s * sqrt (2 / (4 - pi)) < 1 / 1000 \<longrightarrow>
            snr_dietrich c img smask airmask erode fglabel = Inr (Some (- 1)))
       \<and> (\<forall>s. mad c air = Some s \<and> \<not> s * sqrt (2 / (4 - pi)) < 1 / 1000 \<longrightarrow>
            snr_dietrich c img smask airmask erode fglabel =
              Inr (ndiv (median fg) (Some (s * sqrt (2 / (4 - pi))))))
       \<and> (mad c air = None \<longrightarrow>
            snr_dietrich c img smask airmask erode fglabel = Inr None)"
  by (simp add: snr_dietrich_def lbl fgm bgm fg air nmul_def nless_def ndiv_def Let_def
      split: option.splits)

lemma mad_const: "mad 1 [7, 7] = Some 0"
  by (simp add: mad_def median_def)

lemma mad_pair: "mad 1 [6, 8] = Some 1"
  by (simp add: mad_def median_def)

text \<open>The theorem on two volumes: constant air intensities (scale 0, result \<open>-1\<close>) and
  air intensities 6 and 8 (with \<open>c = 1\<close> the scale is \<open>sqrt (2 / (4 - pi))\<close>, at least 1).\<close>

theorem snr_dietrich_rayleigh_witness:
  "snr_dietrich 1 (Vol (2, 2, 2) [4, 5, 12, 100, 7, 7, 0, 0])
      (IntArray (Vol (2, 2, 2) [1, 1, 1, 0, 0, 0, 0, 0]))
      (IntArray (Vol (2, 2, 2) [0, 0, 0, 0, 1, 1, 0, 0])) False (Num 1) = Inr (Some (- 1))
   \<and> snr_dietrich 1 (Vol (2, 2, 2) [4, 5, 12, 100, 6, 8, 0, 0])
      (IntArray (Vol (2, 2, 2) [1, 1, 1, 0, 0, 0, 0, 0]))
      (IntArray (Vol (2, 2, 2) [0, 0, 0, 0, 1, 1, 0, 0])) False (Num 1)
        = Inr (Some (5 / sqrt (2 / (4 - pi))))"
proof -
  have l: "resolve_label (Num 1) = Inr 1" by (simp add: resolve_label_def)
  have f: "prepare_mask (IntArray (Vol (2, 2, 2) [1, 1, 1, 0, 0, 0, 0, 0])) (Num 1) False =
      Inr (IntArray (Vol (2, 2, 2) [1, 1, 1, 0, 0, 0, 0, 0]))"
    by (simp add: prepare_mask_def binarize_def resolve_label_def)
  have a: "prepare_mask (IntArray (Vol (2, 2, 2) [0, 0, 0, 0, 1, 1, 0, 0])) (Num 1) False =
      Inr (IntArray (Vol (2, 2, 2) [0, 0, 0, 0, 1, 1, 0, 0]))"
    by (simp add: prepare_mask_def binarize_def resolve_label_def)
  have s1: "bool_index (Vol (2, 2, 2) [4, 5, 12, 100, 7, 7, 0, 0])
      (np_greater (IntArray (Vol (2, 2, 2) [1, 1, 1, 0, 0, 0, 0, 0])) 0) = Inr [4, 5, 12]"
    by (simp add: bool_index_def np_greater_def)
  have s2: "bool_index (Vol (2, 2, 2) [4, 5, 12, 100, 7, 7, 0, 0])
      (np_greater (IntArray (Vol (2, 2, 2) [0, 0, 0, 0, 1, 1, 0, 0])) 0) = Inr [7, 7]"
    by (simp add: bool_index_def np_greater_def)
  have s3: "bool_index (Vol (2, 2, 2) [4, 5, 12, 100, 6, 8, 0, 0])
      (np_greater (IntArray (Vol (2, 2, 2) [1, 1, 1, 0, 0, 0, 0, 0])) 0) = Inr [4, 5, 12]"
    by (simp add: bool_index_def np_greater_def)
  have s4: "bool_index (Vol (2, 2, 2) [4, 5, 12, 100, 6, 8, 0, 0])
      (np_greater (IntArray (Vol (2, 2, 2) [0, 0, 0, 0, 1, 1, 0, 0])) 0) = Inr [6, 8]"
    by (simp add: bool_index_def np_greater_def)
  have big: "\<not> (1::real) * sqrt (2 / (4 - pi)) < 1 / 1000"
    using rayleigh_factor_ge1 by linarith
  have nz: "sqrt (2 / (4 - pi)) \<noteq> 0" using rayleigh_factor_ge1 by linarith
  have "snr_dietrich 1 (Vol (2, 2, 2) [4, 5, 12, 100, 7, 7, 0, 0])
      (IntArray (Vol (2, 2, 2) [1, 1, 1, 0, 0, 0, 0, 0]))
      (IntArray (Vol (2, 2, 2) [0, 0, 0, 0, 1, 1, 0, 0])) False (Num 1) = Inr (Some (- 1))"
    using snr_dietrich_rayleigh [OF l f a s1 s2, of 1] mad_const by simp
  moreover have "snr_dietrich 1 (Vol (2, 2, 2) [4, 5, 12, 100, 6, 8, 0, 0])
      (IntArray (Vol (2, 2, 2) [1, 1, 1, 0, 0, 0, 0, 0]))
      (IntArray (Vol (2, 2, 2) [0, 0, 0, 0, 1, 1, 0, 0])) False (Num 1)
        = Inr (ndiv (median [4, 5, 12]) (Some (1 * sqrt (2 / (4 - pi)))))"
    using snr_dietrich_rayleigh [OF l f a s3 s4, of 1] mad_pair big by blast
  ultimately show ?thesis using nz
    by (simp add: median_def ndiv_def fdiv_def)
qed


lemma np_average_single: "np_average [x] = x"
  by (cases x) (simp_all add: np_average_def nadd_def ndiv_def fdiv_def)

lemma cnr_example:
  assumes c: "0 < c"
  shows "mad c [0, 0] = Some 0
     \<and> np_average [mad c [10, 12], mad c [20, 24], mad c [5, 11]] = Some (2 / c)
     \<and> ndiv (nabs (nsub (median [10, 12]) (median [20, 24]))) (Some (2 / c)) = Some (11 * c / 2)
     \<and> cnr c (Vol (2, 2, 2) [0, 0, 10, 12, 20, 24, 5, 11])
           (Vol (2, 2, 2) [0, 0, 2, 2, 3, 3, 1, 1]) None = Inr (Some (11 * c / 6))"
proof -
  let ?img = "Vol (2, 2, 2) [0, 0, 10, 12, 20, 24, 5, 11 :: real]"
  let ?seg = "Vol (2, 2, 2) [0, 0, 2, 2, 3, 3, 1, 1 :: int]"
  have bg: "tissue ?img ?seg FSL_FAST_LABELS ''bg'' = Inr [0, 0]"
    by (simp add: tissue_def dict_get_def FSL_FAST_LABELS_def bool_index_def np_equal_def)
  have gm: "tissue ?img ?seg FSL_FAST_LABELS ''gm'' = Inr [10, 12]"
    by (simp add: tissue_def dict_get_def FSL_FAST_LABELS_def bool_index_def np_equal_def)
  have wm: "tissue ?img ?seg FSL_FAST_LABELS ''wm'' = Inr [20, 24]"
    by (simp add: tissue_def dict_get_def FSL_FAST_LABELS_def bool_index_def np_equal_def)
  have csf: "tissue ?img ?seg FSL_FAST_LABELS ''csf'' = Inr [5, 11]"
    by (simp add: tissue_def dict_get_def FSL_FAST_LABELS_def bool_index_def np_equal_def)
  have m0: "mad c [0, 0] = Some 0" using c by (simp add: mad_def median_def)
  have m1: "mad c [10, 12] = Some (1 / c)" using c by (simp add: mad_def median_def)
  have m2: "mad c [20, 24] = Some (2 / c)" using c by (simp add: mad_def median_def)
  have m3: "mad c [5, 11] = Some (3 / c)" using c by (simp add: mad_def median_def)
  have d1: "median [10, 12] = Some 11" by (simp add: median_def)
  have d2: "median [20, 24] = Some 22" by (simp add: median_def)
  have s: "1 / c + 2 / c + 3 / c = 6 / c" by (simp add: add_divide_distrib [symmetric])
  have av: "np_average [mad c [10, 12], mad c [20, 24], mad c [5, 11]] = Some (2 / c)"
    using c by (simp add: m1 m2 m3 np_average_def nadd_def ndiv_def fdiv_def s)
  have q: "ndiv (nabs (nsub (median [10, 12]) (median [20, 24]))) (Some (2 / c)) = Some (11 * c / 2)"
    using c by (simp add: d1 d2 nsub_def nabs_def ndiv_def fdiv_def)
  have r: "cnr c ?img ?seg None = Inr (Some (11 * c / 6))" using c
    by (simp add: cnr_def bg gm wm csf m0 m1 m2 m3 d1 d2 nless_def np_average_single nadd_def
        nsub_def nabs_def ndiv_def fdiv_def s)
  show ?thesis using m0 av q r by simp
qed

text \<open>
  C2. When the MAD of the background is below 1, \<^verbatim>\<open>cnr\<close> divides by
  \<^verbatim>\<open>np.average\<close> of one number, the sum of the three tissue MADs, and so by the sum
  itself and not by a third of it. On a volume with background 0, 0, grey matter
  10, 12, white matter 20, 24 and CSF 5, 11 (and \<open>c = 0.6745\<close>) the MAD of the
  background is 0, the average of the three MADs is \<open>2 / c\<close>, dividing the contrast 11
  by it would give \<open>11 c / 2\<close>, and \<^verbatim>\<open>cnr\<close> returns \<open>11 c / 6\<close>.
\<close>

theorem cnr_fallback_divides_by_sum:
  "mad (6745 / 10000) [0, 0] = Some 0
   \<and> np_average [mad (6745 / 10000) [10, 12], mad (6745 / 10000) [20, 24],
                  mad (6745 / 10000) [5, 11]] = Some (2 / (6745 / 10000))
   \<and> ndiv (nabs (nsub (median [10, 12]) (median [20, 24]))) (Some (2 / (6745 / 10000)))
        = Some (11 * (6745 / 10000) / 2)
   \<and> cnr (6745 / 10000) (Vol (2, 2, 2) [0, 0, 10, 12, 20, 24, 5, 11])
        (Vol (2, 2, 2) [0, 0, 2, 2, 3, 3, 1, 1]) None = Inr (Some (11 * (6745 / 10000) / 6))"
  by (rule cnr_example) simp

lemma greater_label_mask: "np_greater (label_mask s l) (1 / 2) = np_equal s l"
proof -
  have "(\<lambda>x::int. 1 / 2 < real_of_int x) \<circ> (\<lambda>x. if x = l then 1 else 0) = (\<lambda>x. x = l)"
    by (rule ext) simp
  then show ?thesis
    by (simp add: np_greater_def label_mask_def np_equal_def vol.map_comp)
qed

text \<open>
  C8. \<^verbatim>\<open>cjv\<close> raises its \<^verbatim>\<open>RuntimeError\<close> exactly when no segmentation is given and
  one of the two masks is missing. With a segmentation whose labels resolve, and with
  both masks and no segmentation, it returns \<open>(mad wm + mad gm) / (median wm - median gm)\<close>
  over the selected white- and grey-matter intensities (the selections existing, that
  is, the shapes agreeing with the volume's).
\<close>

theorem cjv_requires_masks_or_segmentation:
  "((cjv c img seg wmmask gmmask wmlabel gmlabel =
       Inl (RuntimeError ''Masks or segmentation should be provided''))
     = (seg = None \<and> (wmmask = None \<or> gmmask = None)))
   \<and> (\<forall>s wl gl wm gm.
         seg = Some s \<and> resolve_label wmlabel = Inr wl \<and> resolve_label gmlabel = Inr gl
         \<and> bool_index img (np_equal s wl) = Inr wm \<and> bool_index img (np_equal s gl) = Inr gm
         \<longrightarrow> cjv c img seg wmmask gmmask wmlabel gmlabel =
               Inr (ndiv (nadd (mad c wm) (mad c gm)) (nsub (median wm) (median gm))))
   \<and> (\<forall>w g wm gm.
         seg = None \<and> wmmask = Some w \<and> gmmask = Some g
         \<and> bool_index img (np_greater w (1 / 2)) = Inr wm
         \<and> bool_index img (np_greater g (1 / 2)) = Inr gm
         \<longrightarrow> cjv c img seg wmmask gmmask wmlabel gmlabel =
               Inr (ndiv (nadd (mad c wm) (mad c gm)) (nsub (median wm) (median gm))))"
proof (intro conjI allI impI)
  show "(cjv c img seg wmmask gmmask wmlabel gmlabel =
       Inl (RuntimeError ''Masks or segmentation should be provided''))
     = (seg = None \<and> (wmmask = None \<or> gmmask = None))"
  proof (cases "seg = None \<and> (wmmask = None \<or> gmmask = None)")
    case True
    then show ?thesis by (simp add: cjv_def)
  next
    case False
    have "cjv c img seg wmmask gmmask wmlabel gmlabel \<noteq>
        Inl (RuntimeError ''Masks or segmentation should be provided'')"
    proof (cases seg)
      case None
      with False obtain w g where "wmmask = Some w" "gmmask = Some g" by auto
      with None show ?thesis
        by (simp add: cjv_def half_select_def bool_index_def bindE_def Let_def)
    next
      case (Some s)
      then show ?thesis
        by (cases wmlabel; cases gmlabel)
           (auto simp: cjv_def half_select_def bool_index_def bindE_def Let_def resolve_label_def
              dict_get_def label_mask_def split: sum.splits option.splits if_splits)
    qed
    with False show ?thesis by simp
  qed
next
  fix s wl gl wm gm
  assume "seg = Some s \<and> resolve_label wmlabel = Inr wl \<and> resolve_label gmlabel = Inr gl
         \<and> bool_index img (np_equal s wl) = Inr wm \<and> bool_index img (np_equal s gl) = Inr gm"
  then show "cjv c img seg wmmask gmmask wmlabel gmlabel =
               Inr (ndiv (nadd (mad c wm) (mad c gm)) (nsub (median wm) (median gm)))"
    by (simp add: cjv_def half_select_def greater_label_mask)
next
  fix w g wm gm
  assume "seg = None \<and> wmmask = Some w \<and> gmmask = Some g
         \<and> bool_index img (np_greater w (1 / 2)) = Inr wm
         \<and> bool_index img (np_greater g (1 / 2)) = Inr gm"
  then show "cjv c img seg wmmask gmmask wmlabel gmlabel =
               Inr (ndiv (nadd (mad c wm) (mad c gm)) (nsub (median wm) (median gm)))"
    by (simp add: cjv_def half_select_def)
qed

text \<open>The theorem on white matter 95, 105 and grey matter 45, 55 with \<open>c = 1\<close>: medians
  100 and 50, MADs 5 and 5, result \<open>10 / 50\<close>; and on a call with one mask only.\<close>

theorem cjv_requires_masks_or_segmentation_witness:
  "cjv 1 (Vol (2, 2, 2) [95, 105, 45, 55, 0, 0, 0, 0])
       (Some (Vol (2, 2, 2) [3, 3, 2, 2, 0, 0, 0, 0])) None None (Name ''wm'') (Name ''gm'')
     = Inr (Some (1 / 5))
   \<and> cjv 1 (Vol (2, 2, 2) [95, 105, 45, 55, 0, 0, 0, 0]) None
       (Some (FloatArray (Vol (2, 2, 2) [1, 1, 0, 0, 0, 0, 0, 0]))) None (Name ''wm'') (Name ''gm'')
     = Inl (RuntimeError ''Masks or segmentation should be provided'')"
proof -
  let ?img = "Vol (2, 2, 2) [95, 105, 45, 55, 0, 0, 0, 0 :: real]"
  let ?seg = "Vol (2, 2, 2) [3, 3, 2, 2, 0, 0, 0, 0 :: int]"
  have w: "resolve_label (Name ''wm'') = Inr 3" and g: "resolve_label (Name ''gm'') = Inr 2"
    by (simp_all add: resolve_label_def dict_get_def FSL_FAST_LABELS_def)
  have sw: "bool_index ?img (np_equal ?seg 3) = Inr [95, 105]"
    and sg: "bool_index ?img (np_equal ?seg 2) = Inr [45, 55]"
    by (simp_all add: bool_index_def np_equal_def)
  note t = cjv_requires_masks_or_segmentation
  have "cjv 1 ?img (Some ?seg) None None (Name ''wm'') (Name ''gm'')
      = Inr (ndiv (nadd (mad 1 [95, 105]) (mad 1 [45, 55])) (nsub (median [95, 105]) (median [45, 55])))"
    using t [of 1 ?img "Some ?seg" None None "Name ''wm''" "Name ''gm''"] w g sw sg by blast
  moreover have "cjv 1 ?img None (Some (FloatArray (Vol (2, 2, 2) [1, 1, 0, 0, 0, 0, 0, 0]))) None
       (Name ''wm'') (Name ''gm'') = Inl (RuntimeError ''Masks or segmentation should be provided'')"
    using t [of 1 ?img None "Some (FloatArray (Vol (2, 2, 2) [1, 1, 0, 0, 0, 0, 0, 0]))" None
        "Name ''wm''" "Name ''gm''"] by blast
  ultimately show ?thesis
    by (simp add: mad_def median_def nadd_def nsub_def ndiv_def fdiv_def)
qed

section \<open>Properties of \<^verbatim>\<open>summary_stats\<close>\<close>

lemma zip_as_map:
  "length xs = length bs \<Longrightarrow> zip xs bs = map (\<lambda>i. (xs ! i, bs ! i)) [0..<length bs]"
  by (rule nth_equalityI) simp_all

lemma select_as_filter:
  assumes "length xs = length bs"
  shows "map fst (filter snd (zip xs bs)) = map (\<lambda>i. xs ! i) (filter (\<lambda>i. bs ! i) [0..<length bs])"
  by (simp add: zip_as_map [OF assms] filter_map comp_def)

lemma where_index_same_shape:
  assumes d: "dims m = dims img" and wm: "wf_vol m" and wi: "wf_vol img"
  shows "where_index img m = bool_index img m"
proof -
  define n where "n = vsize (dims m)"
  define js where "js = filter (\<lambda>i. flat m ! i) [0..<n]"
  have lt: "i < n" if "i \<in> set js" for i using that by (simp add: js_def)
  have ins: "list_all (inside (dims img)) (map (unravel (dims m)) js)"
    using lt d by (auto simp: list_all_iff n_def inside_unravel)
  have "map (voxel img) (map (unravel (dims m)) js) = map (\<lambda>i. flat img ! i) js"
    using lt d by (auto simp: voxel_def n_def ravel_unravel)
  moreover have "length (flat img) = length (flat m)" "length (flat m) = n"
    using wm wi d by (simp_all add: wf_vol_def n_def)
  ultimately show ?thesis using ins d
    by (simp add: where_index_def bool_index_def select_as_filter js_def n_def Let_def)
qed

lemma describe_empty: "describe [] = Inl IndexError"
  by (simp add: describe_def percentile_def)

lemma describe_nonempty: "a \<noteq> [] \<Longrightarrow> describe a = Inr (stats_of a)"
  by (simp add: describe_def percentile_def stats_of_def)

lemma four_maps_fail: "isl (summary_stats img (PvmList [a, b, c, d]) bgdata)"
proof (cases "stacked_shape (PvmList [a, b, c, d])")
  case (Inl e)
  then show ?thesis by (simp add: summary_stats_def)
next
  case (Inr sh)
  then have sh: "sh = 4 # shape_list (dims a)"
    by (auto simp: stacked_shape_def eval_nat_numeral split: if_splits)
  obtain nx ny nz where da: "dims a = (nx, ny, nz)" by (cases "dims a") auto
  have nd: "squeezed_ndim sh \<le> 4" "squeezed_ndim sh \<ge> 1"
    by (simp_all add: sh squeezed_ndim_def shape_list_def da)
  consider "squeezed_ndim sh = 4" | "squeezed_ndim sh = 3" | "squeezed_ndim sh < 3"
    using nd by linarith
  then show ?thesis
  proof cases
    case 1
    then show ?thesis
      by (cases bgdata) (simp_all add: summary_stats_def Inr with_background_def)
  next
    case 2
    then show ?thesis
      by (cases bgdata)
         (simp_all add: summary_stats_def Inr with_background_def py_index_def entry_select_def
            bindE_def split: sum.splits)
  next
    case 3
    then show ?thesis
      by (simp add: summary_stats_def Inr with_background_def)
  qed
qed

lemma three_maps_run:
  assumes d: "dims csf = dims img" "dims gm = dims img" "dims wm = dims img"
    and nu: "no_unit_axis (dims img)"
    and sc: "where_index img (np_greater (FloatArray csf) (1 / 2)) = Inr xc"
    and sg: "where_index img (np_greater (FloatArray gm) (1 / 2)) = Inr xg"
    and sw: "where_index img (np_greater (FloatArray wm) (1 / 2)) = Inr xw"
    and sb: "where_index img (np_greater (FloatArray
               (case bgdata of None \<Rightarrow> sum_axis0 [csf, gm, wm] | Some b \<Rightarrow> b)) (1 / 2)) = Inr xb"
  shows "summary_stats img (PvmList [csf, gm, wm]) bgdata =
     bindE (describe xc) (\<lambda>tc.
     bindE (describe xg) (\<lambda>tg.
     bindE (describe xw) (\<lambda>tw.
     bindE (describe xb) (\<lambda>tb.
       Inr [(''csf'', tc), (''gm'', tg), (''wm'', tw), (''bg'', tb)]))))"
proof -
  obtain nx ny nz where di: "dims img = (nx, ny, nz)" by (cases "dims img") auto
  have sh: "stacked_shape (PvmList [csf, gm, wm]) = Inr [3, nx, ny, nz]"
    using d by (simp add: stacked_shape_def shape_list_def di)
  have nd: "squeezed_ndim [3, nx, ny, nz] = 4"
    using nu by (simp add: squeezed_ndim_def no_unit_axis_def di)
  show ?thesis using sc sg sw sb
    by (cases bgdata)
       (simp_all add: summary_stats_def sh nd with_background_def FSL_FAST_LABELS_def
          py_index_def entry_select_def bindE_def split: sum.splits)
qed

lemma three_maps_ok:
  assumes d: "dims csf = dims img" "dims gm = dims img" "dims wm = dims img"
    and nu: "no_unit_axis (dims img)"
    and sc: "where_index img (np_greater (FloatArray csf) (1 / 2)) = Inr xc"
    and sg: "where_index img (np_greater (FloatArray gm) (1 / 2)) = Inr xg"
    and sw: "where_index img (np_greater (FloatArray wm) (1 / 2)) = Inr xw"
    and sb: "where_index img (np_greater (FloatArray
               (case bgdata of None \<Rightarrow> sum_axis0 [csf, gm, wm] | Some b \<Rightarrow> b)) (1 / 2)) = Inr xb"
    and ne: "xc \<noteq> []" "xg \<noteq> []" "xw \<noteq> []" "xb \<noteq> []"
  shows "summary_stats img (PvmList [csf, gm, wm]) bgdata =
     Inr [(''csf'', stats_of xc), (''gm'', stats_of xg), (''wm'', stats_of xw),
          (''bg'', stats_of xb)]"
  unfolding three_maps_run [OF d nu sc sg sw sb] using ne
  by (simp add: describe_nonempty)

lemma three_maps_empty:
  assumes d: "dims csf = dims img" "dims gm = dims img" "dims wm = dims img"
    and nu: "no_unit_axis (dims img)"
    and sc: "where_index img (np_greater (FloatArray csf) (1 / 2)) = Inr xc"
    and sg: "where_index img (np_greater (FloatArray gm) (1 / 2)) = Inr xg"
    and sw: "where_index img (np_greater (FloatArray wm) (1 / 2)) = Inr xw"
    and sb: "where_index img (np_greater (FloatArray
               (case bgdata of None \<Rightarrow> sum_axis0 [csf, gm, wm] | Some b \<Rightarrow> b)) (1 / 2)) = Inr xb"
    and e: "xc = [] \<or> xg = [] \<or> xw = [] \<or> xb = []"
  shows "summary_stats img (PvmList [csf, gm, wm]) bgdata = Inl IndexError"
proof -
  have r: "describe x = Inl IndexError \<or> describe x = Inr (stats_of x)" for x
    by (cases "x = []") (simp_all add: describe_empty describe_nonempty)
  have "bindE (describe xc) (\<lambda>tc.
     bindE (describe xg) (\<lambda>tg.
     bindE (describe xw) (\<lambda>tw.
     bindE (describe xb) (\<lambda>tb.
       Inr [(''csf'', tc), (''gm'', tg), (''wm'', tw), (''bg'', tb)])))) = Inl IndexError"
    using e r [of xc] r [of xg] r [of xw] r [of xb]
    by (auto simp: describe_empty)
  then show ?thesis by (simp only: three_maps_run [OF d nu sc sg sw sb])
qed

lemma four_maps_unbound:
  assumes d: "dims a = dims img" "dims b = dims img" "dims c = dims img" "dims d = dims img"
    and nu: "no_unit_axis (dims img)"
  shows "summary_stats img (PvmList [a, b, c, d]) bgdata = Inl (UnboundLocalError ''labels'')"
proof -
  obtain nx ny nz where di: "dims img = (nx, ny, nz)" by (cases "dims img") auto
  have sh: "stacked_shape (PvmList [a, b, c, d]) = Inr [4, nx, ny, nz]"
    using d by (simp add: stacked_shape_def shape_list_def di)
  have nd: "squeezed_ndim [4, nx, ny, nz] = 4"
    using nu by (simp add: squeezed_ndim_def no_unit_axis_def di)
  show ?thesis
    by (cases bgdata) (simp_all add: summary_stats_def sh nd with_background_def)
qed

text \<open>
  C3. Over a grid without an axis of length 1, with \<open>xc\<close>, \<open>xg\<close>, \<open>xw\<close> the intensities
  where the CSF, GM and WM map exceeds 0.5 and \<open>xb\<close> those where the sum of the three
  maps (or \<^verbatim>\<open>bgdata\<close>) does: when each of the four selections holds a voxel,
  \<^verbatim>\<open>summary_stats\<close> on the list of the three tissue maps returns for each tissue the
  statistics of its selection; when one of them is empty it raises \<^verbatim>\<open>IndexError\<close> (from
  \<^verbatim>\<open>np.percentile\<close>). On a list of four maps it returns no statistics: every such call
  raises, and with four maps of the volume's shape the error is the unassigned
  \<^verbatim>\<open>labels\<close>, the list having five entries after the background is prepended.
\<close>

theorem summary_stats_three_maps_only:
  assumes d: "dims csf = dims img" "dims gm = dims img" "dims wm = dims img"
    and nu: "no_unit_axis (dims img)"
    and sc: "where_index img (np_greater (FloatArray csf) (1 / 2)) = Inr xc"
    and sg: "where_index img (np_greater (FloatArray gm) (1 / 2)) = Inr xg"
    and sw: "where_index img (np_greater (FloatArray wm) (1 / 2)) = Inr xw"
    and sb: "where_index img (np_greater (FloatArray
               (case bgdata of None \<Rightarrow> sum_axis0 [csf, gm, wm] | Some b \<Rightarrow> b)) (1 / 2)) = Inr xb"
  shows "(xc \<noteq> [] \<and> xg \<noteq> [] \<and> xw \<noteq> [] \<and> xb \<noteq> [] \<longrightarrow>
            summary_stats img (PvmList [csf, gm, wm]) bgdata =
              Inr [(''csf'', stats_of xc), (''gm'', stats_of xg), (''wm'', stats_of xw),
                   (''bg'', stats_of xb)])
       \<and> (xc = [] \<or> xg = [] \<or> xw = [] \<or> xb = [] \<longrightarrow>
            summary_stats img (PvmList [csf, gm, wm]) bgdata = Inl IndexError)
       \<and> isl (summary_stats img (PvmList [bg, csf, gm, wm]) bgdata)
       \<and> (dims bg = dims img \<longrightarrow>
            summary_stats img (PvmList [bg, csf, gm, wm]) bgdata =
              Inl (UnboundLocalError ''labels''))"
proof (intro conjI impI)
  assume "xc \<noteq> [] \<and> xg \<noteq> [] \<and> xw \<noteq> [] \<and> xb \<noteq> []"
  then show "summary_stats img (PvmList [csf, gm, wm]) bgdata =
      Inr [(''csf'', stats_of xc), (''gm'', stats_of xg), (''wm'', stats_of xw),
           (''bg'', stats_of xb)]"
    using three_maps_ok [OF d nu sc sg sw sb] by blast
next
  assume "xc = [] \<or> xg = [] \<or> xw = [] \<or> xb = []"
  then show "summary_stats img (PvmList [csf, gm, wm]) bgdata = Inl IndexError"
    by (rule three_maps_empty [OF d nu sc sg sw sb])
next
  show "isl (summary_stats img (PvmList [bg, csf, gm, wm]) bgdata)"
    by (rule four_maps_fail)
next
  assume "dims bg = dims img"
  then show "summary_stats img (PvmList [bg, csf, gm, wm]) bgdata =
      Inl (UnboundLocalError ''labels'')"
    using d nu by (intro four_maps_unbound)
qed

lemma stats_of_pair:
  "a < b \<Longrightarrow> stats_of [a, b] =
     Stats (Some ((a + b) / 2)) (Some ((b - a) / 2)) (Some (a + 95 / 100 * (b - a)))
       (Some (a + 5 / 100 * (b - a))) (Some (- 2))"
proof -
  assume ab: "a < b"
  have m: "mean [a, b] = Some ((a + b) / 2)" by (simp add: mean_def fdiv_def)
  have e: "a - (a + b) / 2 = - ((b - a) / 2)" "b - (a + b) / 2 = (b - a) / 2"
    by (simp_all add: field_simps)
  have c2: "central_moment 2 [a, b] = Some (((b - a) / 2)\<^sup>2)"
    by (simp add: central_moment_def m e)
  have c4: "central_moment 4 [a, b] = Some (((b - a) / 2) ^ 4)"
    by (simp add: central_moment_def m e)
  have sd: "np_std [a, b] = Some ((b - a) / 2)"
    using ab by (simp add: np_std_def c2 nsqrt_def)
  have p95: "interpolate [a, b] 95 = a + 95 / 100 * (b - a)"
    using ab by (simp add: interpolate_def Let_def)
  have p05: "interpolate [a, b] 5 = a + 5 / 100 * (b - a)"
    using ab by (simp add: interpolate_def Let_def)
  have nz: "(b - a) / 2 \<noteq> 0" using ab by simp
  have k: "kurtosis [a, b] = Some (- 2)"
  proof -
    have "((b - a) / 2) ^ 4 / (((b - a) / 2)\<^sup>2 * ((b - a) / 2)\<^sup>2) = 1"
      using nz by (simp add: power4_eq_xxxx power2_eq_square)
    then show ?thesis using nz
      by (simp add: kurtosis_def c2 c4 nmul_def ndiv_def fdiv_def nsub_def)
  qed
  show ?thesis by (simp add: stats_of_def m sd p95 p05 k)
qed

lemma stats_of_six:
  "stats_of [2, 4, 10, 14, 20, 28] =
     Stats (Some 13) (Some 9) (Some 26) (Some (5 / 2)) (Some (12385 / 6561 - 3))"
  by (simp add: stats_of_def mean_def fdiv_def np_std_def central_moment_def nsqrt_def
      interpolate_def kurtosis_def ndiv_def nmul_def nsub_def)

lemma example_selections:
  "where_index (Vol (2, 2, 2) [2, 4, 10, 14, 20, 28, 0, 1])
      (np_greater (FloatArray (Vol (2, 2, 2) [1, 1, 0, 0, 0, 0, 0, 0])) (1 / 2)) = Inr [2, 4]"
  "where_index (Vol (2, 2, 2) [2, 4, 10, 14, 20, 28, 0, 1])
      (np_greater (FloatArray (Vol (2, 2, 2) [0, 0, 1, 1, 0, 0, 0, 0])) (1 / 2)) = Inr [10, 14]"
  "where_index (Vol (2, 2, 2) [2, 4, 10, 14, 20, 28, 0, 1])
      (np_greater (FloatArray (Vol (2, 2, 2) [0, 0, 0, 0, 1, 1, 0, 0])) (1 / 2)) = Inr [20, 28]"
  "where_index (Vol (2, 2, 2) [2, 4, 10, 14, 20, 28, 0, 1])
      (np_greater (FloatArray (Vol (2, 2, 2) [1, 1, 1, 1, 1, 1, 0, 0])) (1 / 2))
        = Inr [2, 4, 10, 14, 20, 28]"
  "where_index (Vol (2, 2, 2) [2, 4, 10, 14, 20, 28, 0, 1])
      (np_greater (FloatArray (Vol (2, 2, 2) [0, 0, 0, 0, 0, 0, 0, 0])) (1 / 2)) = Inr []"
  "where_index (Vol (2, 2, 2) [2, 4, 10, 14, 20, 28, 0, 1])
      (np_greater (FloatArray (Vol (2, 2, 2) [1, 1, 1, 1, 0, 0, 0, 0])) (1 / 2))
        = Inr [2, 4, 10, 14]"
  by (subst where_index_same_shape;
      simp add: np_greater_def wf_vol_def vsize_def bool_index_def)+

lemma example_sum:
  "sum_axis0 [Vol (2, 2, 2) [1, 1, 0, 0, 0, 0, 0, 0], Vol (2, 2, 2) [0, 0, 1, 1, 0, 0, 0, 0],
              Vol (2, 2, 2) [0, 0, 0, 0, 1, 1, 0, 0]] = Vol (2, 2, 2) [1, 1, 1, 1, 1, 1, 0, 0]"
  "sum_axis0 [Vol (2, 2, 2) [1, 1, 0, 0, 0, 0, 0, 0], Vol (2, 2, 2) [0, 0, 1, 1, 0, 0, 0, 0],
              Vol (2, 2, 2) [0, 0, 0, 0, 0, 0, 0, 0]] = Vol (2, 2, 2) [1, 1, 1, 1, 0, 0, 0, 0]"
  by (simp_all add: sum_axis0_def upt_rec [of _ "numeral n" for n] upt_rec [of _ "Suc n" for n])

text \<open>The theorem on a volume of 2x2x2 voxels with CSF intensities 2, 4, grey matter
  10, 14 and white matter 20, 28, and on the same volume with a white-matter map that is
  0 everywhere.\<close>

theorem summary_stats_three_maps_only_witness:
  "summary_stats (Vol (2, 2, 2) [2, 4, 10, 14, 20, 28, 0, 1])
     (PvmList [Vol (2, 2, 2) [1, 1, 0, 0, 0, 0, 0, 0], Vol (2, 2, 2) [0, 0, 1, 1, 0, 0, 0, 0],
               Vol (2, 2, 2) [0, 0, 0, 0, 1, 1, 0, 0]]) None =
     Inr [(''csf'', Stats (Some 3) (Some 1) (Some (39 / 10)) (Some (21 / 10)) (Some (- 2))),
          (''gm'', Stats (Some 12) (Some 2) (Some (138 / 10)) (Some (102 / 10)) (Some (- 2))),
          (''wm'', Stats (Some 24) (Some 4) (Some (276 / 10)) (Some (204 / 10)) (Some (- 2))),
          (''bg'', Stats (Some 13) (Some 9) (Some 26) (Some (5 / 2)) (Some (12385 / 6561 - 3)))]
   \<and> summary_stats (Vol (2, 2, 2) [2, 4, 10, 14, 20, 28, 0, 1])
     (PvmList [Vol (2, 2, 2) [1, 1, 0, 0, 0, 0, 0, 0], Vol (2, 2, 2) [0, 0, 1, 1, 0, 0, 0, 0],
               Vol (2, 2, 2) [0, 0, 0, 0, 0, 0, 0, 0]]) None = Inl IndexError"
proof -
  have a: "summary_stats (Vol (2, 2, 2) [2, 4, 10, 14, 20, 28, 0, 1])
     (PvmList [Vol (2, 2, 2) [1, 1, 0, 0, 0, 0, 0, 0], Vol (2, 2, 2) [0, 0, 1, 1, 0, 0, 0, 0],
               Vol (2, 2, 2) [0, 0, 0, 0, 1, 1, 0, 0]]) None =
     Inr [(''csf'', stats_of [2, 4]), (''gm'', stats_of [10, 14]), (''wm'', stats_of [20, 28]),
          (''bg'', stats_of [2, 4, 10, 14, 20, 28])]"
    by (rule summary_stats_three_maps_only [THEN conjunct1, THEN mp])
       (simp_all add: no_unit_axis_def example_selections example_sum)
  have b: "summary_stats (Vol (2, 2, 2) [2, 4, 10, 14, 20, 28, 0, 1])
     (PvmList [Vol (2, 2, 2) [1, 1, 0, 0, 0, 0, 0, 0], Vol (2, 2, 2) [0, 0, 1, 1, 0, 0, 0, 0],
               Vol (2, 2, 2) [0, 0, 0, 0, 0, 0, 0, 0]]) None = Inl IndexError"
    by (rule summary_stats_three_maps_only
          [where xc = "[2, 4]" and xg = "[10, 14]" and xw = "[]" and xb = "[2, 4, 10, 14]",
           THEN conjunct2, THEN conjunct1, THEN mp])
       (simp_all add: no_unit_axis_def example_selections example_sum)
  from a b show ?thesis
    by (simp add: stats_of_pair stats_of_six)
qed

text \<open>On the same volume the call with the background map in front raises, and the call
  without it returns the statistics: the two do not agree.\<close>

theorem summary_stats_four_maps_counterexample:
  "summary_stats (Vol (2, 2, 2) [2, 4, 10, 14, 20, 28, 0, 1])
     (PvmList [Vol (2, 2, 2) [0, 0, 0, 0, 0, 0, 1, 1], Vol (2, 2, 2) [1, 1, 0, 0, 0, 0, 0, 0],
               Vol (2, 2, 2) [0, 0, 1, 1, 0, 0, 0, 0], Vol (2, 2, 2) [0, 0, 0, 0, 1, 1, 0, 0]]) None
     = Inl (UnboundLocalError ''labels'')
   \<and> summary_stats (Vol (2, 2, 2) [2, 4, 10, 14, 20, 28, 0, 1])
     (PvmList [Vol (2, 2, 2) [1, 1, 0, 0, 0, 0, 0, 0], Vol (2, 2, 2) [0, 0, 1, 1, 0, 0, 0, 0],
               Vol (2, 2, 2) [0, 0, 0, 0, 1, 1, 0, 0]]) None =
     Inr [(''csf'', stats_of [2, 4]), (''gm'', stats_of [10, 14]), (''wm'', stats_of [20, 28]),
          (''bg'', stats_of [2, 4, 10, 14, 20, 28])]"
proof -
  have "summary_stats (Vol (2, 2, 2) [2, 4, 10, 14, 20, 28, 0, 1])
     (PvmList [Vol (2, 2, 2) [0, 0, 0, 0, 0, 0, 1, 1], Vol (2, 2, 2) [1, 1, 0, 0, 0, 0, 0, 0],
               Vol (2, 2, 2) [0, 0, 1, 1, 0, 0, 0, 0], Vol (2, 2, 2) [0, 0, 0, 0, 1, 1, 0, 0]]) None
     = Inl (UnboundLocalError ''labels'')"
    by (rule four_maps_unbound) (simp_all add: no_unit_axis_def)
  moreover have "summary_stats (Vol (2, 2, 2) [2, 4, 10, 14, 20, 28, 0, 1])
     (PvmList [Vol (2, 2, 2) [1, 1, 0, 0, 0, 0, 0, 0], Vol (2, 2, 2) [0, 0, 1, 1, 0, 0, 0, 0],
               Vol (2, 2, 2) [0, 0, 0, 0, 1, 1, 0, 0]]) None =
     Inr [(''csf'', stats_of [2, 4]), (''gm'', stats_of [10, 14]), (''wm'', stats_of [20, 28]),
          (''bg'', stats_of [2, 4, 10, 14, 20, 28])]"
    by (rule three_maps_ok) (simp_all add: no_unit_axis_def example_selections example_sum)
  ultimately show ?thesis by simp
qed

section \<open>Properties of \<^verbatim>\<open>rpve\<close>\<close>

lemma masked_assign_fresh:
  "masked_assign (st @ [a]) (length st) cond v =
     st @ [Arr (shp a) (map (\<lambda>x. if cond x then v else x) (elems a))]"
  by (simp add: masked_assign_def)

lemma rpve_loop_raise:
  assumes lid: "lid \<noteq> 0" and sel: "take_tissue st pvms seg lid = Inr sel"
    and none: "filter (\<lambda>x. 0 < x) (clipped sel) = []"
  shows "rpve_loop ((k, lid) # ls) st pvms seg pvfs =
     (Inl (Raised IndexError), st @ [Arr [length sel] (clipped sel)])"
proof -
  define a1 where "a1 = Arr [length sel] (map (\<lambda>x. if x < 0 then 0 else x) sel)"
  define a2 where "a2 = Arr (shp a1) (map (\<lambda>x. if 1 \<le> x then 0 else x) (elems a1))"
  have e2: "elems a2 = clipped sel"
    unfolding a2_def a1_def clipped_def by (simp only: arr.sel)
  have s2: "shp a2 = [length sel]"
    unfolding a2_def a1_def by (simp only: arr.sel)
  have a2: "a2 = Arr [length sel] (clipped sel)"
    using e2 s2 by (cases a2) simp
  have st3: "masked_assign (masked_assign (st @ [Arr [length sel] sel]) (length st)
               (\<lambda>x. x < 0) 0) (length st) (\<lambda>x. 1 \<le> x) 0 = st @ [a2]"
    by (simp add: masked_assign_fresh a1_def a2_def)
  have pos: "positive_part (st @ [a2]) (length st) = []"
    using none by (simp add: positive_part_def e2)
  have "rpve_loop ((k, lid) # ls) st pvms seg pvfs = (Inl (Raised IndexError), st @ [a2])"
    using lid by (simp add: sel alloc_def st3 pos percentile_def Let_def)
  then show ?thesis by (simp only: a2)
qed

lemma rpve_loop_step:
  assumes lid: "lid \<noteq> 0" and sel: "take_tissue st pvms seg lid = Inr sel"
    and some: "filter (\<lambda>x. 0 < x) (clipped sel) \<noteq> []"
  shows "rpve_loop ((k, lid) # ls) st pvms seg pvfs =
     rpve_loop ls (st @ [Arr [length sel] (trimmed sel)]) pvms seg
       (pvfs @ [(k, sum_list (filter (\<lambda>x. 0 < x) (trimmed sel)))])"
proof -
  define a1 where "a1 = Arr [length sel] (map (\<lambda>x. if x < 0 then 0 else x) sel)"
  define a2 where "a2 = Arr (shp a1) (map (\<lambda>x. if 1 \<le> x then 0 else x) (elems a1))"
  define upth where "upth = interpolate (filter (\<lambda>x. 0 < x) (elems a2)) 98"
  define loth where "loth = interpolate (filter (\<lambda>x. 0 < x) (elems a2)) 2"
  define a3 where "a3 = Arr (shp a2) (map (\<lambda>x. if x < loth then 0 else x) (elems a2))"
  define a4 where "a4 = Arr (shp a3) (map (\<lambda>x. if upth < x then 0 else x) (elems a3))"
  have e2: "elems a2 = clipped sel"
    unfolding a2_def a1_def clipped_def by (simp only: arr.sel)
  have st3: "masked_assign (masked_assign (st @ [Arr [length sel] sel]) (length st)
               (\<lambda>x. x < 0) 0) (length st) (\<lambda>x. 1 \<le> x) 0 = st @ [a2]"
    by (simp add: masked_assign_fresh a1_def a2_def)
  have pos: "positive_part (st @ [a2]) (length st) = filter (\<lambda>x. 0 < x) (elems a2)"
    by (simp add: positive_part_def)
  have ne: "filter (\<lambda>x. 0 < x) (elems a2) \<noteq> []" using some by (simp add: e2)
  have st5: "masked_assign (masked_assign (st @ [a2]) (length st) (\<lambda>x. x < loth) 0)
               (length st) (\<lambda>x. upth < x) 0 = st @ [a4]"
    by (simp add: masked_assign_fresh a3_def a4_def)
  have pos5: "positive_part (st @ [a4]) (length st) = filter (\<lambda>x. 0 < x) (elems a4)"
    by (simp add: positive_part_def)
  have step: "rpve_loop ((k, lid) # ls) st pvms seg pvfs =
      rpve_loop ls (st @ [a4]) pvms seg (pvfs @ [(k, sum_list (filter (\<lambda>x. 0 < x) (elems a4)))])"
    using lid ne
    by (simp add: sel alloc_def st3 pos percentile_def Let_def st5 pos5
        upth_def [symmetric] loth_def [symmetric])
  have e4: "elems a4 = trimmed sel"
    unfolding trimmed_def Let_def a4_def a3_def upth_def loth_def e2 by (simp only: arr.sel)
  have s4: "shp a4 = [length sel]"
    unfolding a4_def a3_def a2_def a1_def by (simp only: arr.sel)
  have "a4 = Arr [length sel] (trimmed sel)"
    using e4 s4 by (cases a4) simp
  then show ?thesis using step e4 by simp
qed

lemma rpve_loop_extends:
  "\<exists>fresh. snd (rpve_loop ls st pvms seg pvfs) = st @ fresh"
proof (induction ls arbitrary: st pvfs)
  case Nil
  then show ?case by simp
next
  case (Cons p ls)
  obtain k lid where p: "p = (k, lid)" by (cases p)
  show ?case
  proof (cases "lid = 0")
    case True
    then show ?thesis using Cons.IH by (simp add: p)
  next
    case False
    show ?thesis
    proof (cases "take_tissue st pvms seg lid")
      case (Inl e)
      then show ?thesis using False by (simp add: p)
    next
      case (Inr sel)
      show ?thesis
      proof (cases "filter (\<lambda>x. 0 < x) (clipped sel) = []")
        case True
        show ?thesis
          unfolding p rpve_loop_raise [OF False Inr True] by simp
      next
        case nonempty: False
        from Cons.IH [of "st @ [Arr [length sel] (trimmed sel)]"] show ?thesis
          unfolding p rpve_loop_step [OF False Inr nonempty] by auto
      qed
    qed
  qed
qed

lemma rpve_loop_skip: "rpve_loop ((k, 0) # ls) st pvms seg pvfs = rpve_loop ls st pvms seg pvfs"
  by simp

text \<open>
  C10. Whatever \<^verbatim>\<open>rpve\<close> is called on and whether it returns or raises, the store it
  leaves begins with the store it was given: every array that existed at the call, the
  maps and the segmentation among them, is unchanged, and the arrays that the masked
  assignments wrote into are appended after them.
\<close>

theorem rpve_leaves_inputs_unchanged:
  "length st \<le> length (snd (rpve st pvms seg))
   \<and> take (length st) (snd (rpve st pvms seg)) = st"
proof -
  obtain fresh where "snd (rpve st pvms seg) = st @ fresh"
    unfolding rpve_def using rpve_loop_extends by blast
  then show ?thesis by simp
qed

lemma interpolate_single: "interpolate [a] q = a"
  by (simp add: interpolate_def Let_def)

lemma clipped_single: "0 < a \<Longrightarrow> a < 1 \<Longrightarrow> clipped [a] = [a]"
  by (simp add: clipped_def)

lemma trimmed_single: "0 < a \<Longrightarrow> a < 1 \<Longrightarrow> trimmed [a] = [a]"
  by (simp add: trimmed_def clipped_single interpolate_single)

lemma trimmed_example:
  "trimmed [- 1 / 2, 2 / 10, 5 / 10, 9 / 10, 1, 3 / 10] = [0, 0, 5 / 10, 0, 0, 3 / 10]"
  by (simp add: trimmed_def clipped_def interpolate_def Let_def)

text \<open>A run that returns: the CSF map holds values below 0 and at 1 inside the CSF region;
  the copy is clipped and trimmed, the sums are returned, and the four input arrays
  stand in the final store as they were.\<close>

lemma rpve_example:
  "rpve [Arr [2, 2, 2] [- 1 / 2, 2 / 10, 5 / 10, 9 / 10, 1, 3 / 10, 0, 0],
         Arr [2, 2, 2] [0, 0, 0, 0, 0, 0, 7 / 10, 0],
         Arr [2, 2, 2] [0, 0, 0, 0, 0, 0, 0, 6 / 10],
         Arr [2, 2, 2] [1, 1, 1, 1, 1, 1, 2, 3]] [0, 1, 2] 3
   = (Inr [(''csf'', 8 / 10), (''gm'', 7 / 10), (''wm'', 6 / 10)],
      [Arr [2, 2, 2] [- 1 / 2, 2 / 10, 5 / 10, 9 / 10, 1, 3 / 10, 0, 0],
       Arr [2, 2, 2] [0, 0, 0, 0, 0, 0, 7 / 10, 0],
       Arr [2, 2, 2] [0, 0, 0, 0, 0, 0, 0, 6 / 10],
       Arr [2, 2, 2] [1, 1, 1, 1, 1, 1, 2, 3],
       Arr [6] [0, 0, 5 / 10, 0, 0, 3 / 10],
       Arr [1] [7 / 10],
       Arr [1] [6 / 10]])"
proof -
  let ?csf = "Arr [2, 2, 2] [- 1 / 2, 2 / 10, 5 / 10, 9 / 10, 1, 3 / 10, 0, 0]"
  let ?gm = "Arr [2, 2, 2] [0, 0, 0, 0, 0, 0, 7 / 10, 0]"
  let ?wm = "Arr [2, 2, 2] [0, 0, 0, 0, 0, 0, 0, 6 / 10]"
  let ?seg = "Arr [2, 2, 2] [1, 1, 1, 1, 1, 1, 2, 3]"
  let ?c1 = "Arr [6] [0, 0, 5 / 10, 0, 0, 3 / 10]"
  let ?c2 = "Arr [1] [7 / 10]"
  let ?c3 = "Arr [1] [6 / 10]"
  have t1: "take_tissue [?csf, ?gm, ?wm, ?seg] [0, 1, 2] 3 1 =
      Inr [- 1 / 2, 2 / 10, 5 / 10, 9 / 10, 1, 3 / 10]"
    by (simp add: take_tissue_def lift_error_def py_index_def deref_def mask_index_def)
  have t2: "take_tissue [?csf, ?gm, ?wm, ?seg, ?c1] [0, 1, 2] 3 2 = Inr [7 / 10]"
    by (simp add: take_tissue_def lift_error_def py_index_def deref_def mask_index_def)
  have t3: "take_tissue [?csf, ?gm, ?wm, ?seg, ?c1, ?c2] [0, 1, 2] 3 3 = Inr [6 / 10]"
    by (simp add: take_tissue_def lift_error_def py_index_def deref_def mask_index_def)
  have n1: "filter (\<lambda>x. 0 < x) (clipped [- 1 / 2, 2 / 10, 5 / 10, 9 / 10, 1, 3 / 10]) \<noteq> []"
    by (simp add: clipped_def)
  have n2: "filter (\<lambda>x. 0 < x) (clipped [7 / 10]) \<noteq> []"
    by (simp add: clipped_def)
  have n3: "filter (\<lambda>x. 0 < x) (clipped [6 / 10]) \<noteq> []"
    by (simp add: clipped_def)
  have s1: "rpve_loop [(''csf'', 1), (''gm'', 2), (''wm'', 3), (''bg'', 0)]
        [?csf, ?gm, ?wm, ?seg] [0, 1, 2] 3 [] =
      rpve_loop [(''gm'', 2), (''wm'', 3), (''bg'', 0)]
        [?csf, ?gm, ?wm, ?seg, ?c1] [0, 1, 2] 3 [(''csf'', 8 / 10)]"
    by (subst rpve_loop_step [OF _ t1 n1])
       (simp_all only: trimmed_example, simp_all add: eval_nat_numeral del: rpve_loop.simps)
  have s2: "rpve_loop [(''gm'', 2), (''wm'', 3), (''bg'', 0)]
        [?csf, ?gm, ?wm, ?seg, ?c1] [0, 1, 2] 3 [(''csf'', 8 / 10)] =
      rpve_loop [(''wm'', 3), (''bg'', 0)]
        [?csf, ?gm, ?wm, ?seg, ?c1, ?c2] [0, 1, 2] 3 [(''csf'', 8 / 10), (''gm'', 7 / 10)]"
    by (subst rpve_loop_step [OF _ t2 n2])
       (simp_all add: trimmed_single eval_nat_numeral del: rpve_loop.simps)
  have s3: "rpve_loop [(''wm'', 3), (''bg'', 0)]
        [?csf, ?gm, ?wm, ?seg, ?c1, ?c2] [0, 1, 2] 3 [(''csf'', 8 / 10), (''gm'', 7 / 10)] =
      rpve_loop [(''bg'', 0)]
        [?csf, ?gm, ?wm, ?seg, ?c1, ?c2, ?c3] [0, 1, 2] 3
        [(''csf'', 8 / 10), (''gm'', 7 / 10), (''wm'', 6 / 10)]"
    by (subst rpve_loop_step [OF _ t3 n3])
       (simp_all add: trimmed_single eval_nat_numeral del: rpve_loop.simps)
  show ?thesis
    by (simp only: rpve_def FSL_FAST_LABELS_def s1 s2 s3 rpve_loop_skip rpve_loop.simps(1))
qed

text \<open>A run that raises: no value of the CSF map is positive inside the CSF region, so
  the first percentile raises \<^verbatim>\<open>IndexError\<close>; the clipped copy has been appended and the
  four input arrays stand as they were.\<close>

lemma rpve_raises_example:
  "rpve [Arr [2, 2, 2] [- 1 / 2, 0, 1, 0, 0, 0, 0, 0],
         Arr [2, 2, 2] [0, 0, 0, 0, 0, 0, 7 / 10, 0],
         Arr [2, 2, 2] [0, 0, 0, 0, 0, 0, 0, 6 / 10],
         Arr [2, 2, 2] [1, 1, 1, 0, 0, 0, 2, 3]] [0, 1, 2] 3
   = (Inl (Raised IndexError),
      [Arr [2, 2, 2] [- 1 / 2, 0, 1, 0, 0, 0, 0, 0],
       Arr [2, 2, 2] [0, 0, 0, 0, 0, 0, 7 / 10, 0],
       Arr [2, 2, 2] [0, 0, 0, 0, 0, 0, 0, 6 / 10],
       Arr [2, 2, 2] [1, 1, 1, 0, 0, 0, 2, 3],
       Arr [3] [0, 0, 0]])"
proof -
  have t: "take_tissue [Arr [2, 2, 2] [- 1 / 2, 0, 1, 0, 0, 0, 0, 0],
         Arr [2, 2, 2] [0, 0, 0, 0, 0, 0, 7 / 10, 0],
         Arr [2, 2, 2] [0, 0, 0, 0, 0, 0, 0, 6 / 10],
         Arr [2, 2, 2] [1, 1, 1, 0, 0, 0, 2, 3]] [0, 1, 2] 3 1 = Inr [- 1 / 2, 0, 1]"
    by (simp add: take_tissue_def lift_error_def py_index_def deref_def mask_index_def)
  have n: "filter (\<lambda>x. 0 < x) (clipped [- 1 / 2, 0, 1]) = []"
    by (simp add: clipped_def)
  show ?thesis
    unfolding rpve_def FSL_FAST_LABELS_def
    by (subst rpve_loop_raise [OF _ t n]) (simp_all add: clipped_def)
qed

section \<open>Properties of \<^verbatim>\<open>art_qi2\<close>\<close>

text \<open>
  C5. When the output file can be opened and the air region (eroded when asked) selects
  fewer than \<open>min_voxels\<close> strictly positive intensities, \<^verbatim>\<open>art_qi2\<close> returns 0 with the
  absolute path of the file, and the file exists in the file system it leaves: created
  empty when it was not there, untouched otherwise. No fit is run.
\<close>

theorem art_qi2_short_circuit:
  assumes w: "writable env (abspath env out_file)"
    and d: "bool_index img (np_greater (eroded_air airmask erodemask) 0) = Inr data"
    and few: "real (length (filter (\<lambda>x. 0 < x) data)) < min_voxels"
  shows "art_qi2 env fs img airmask ncoils erodemask out_file min_voxels =
           (Inr (0, abspath env out_file),
            (case fs (abspath env out_file) of
               None \<Rightarrow> fs(abspath env out_file \<mapsto> [])
             | Some content \<Rightarrow> fs))
       \<and> snd (art_qi2 env fs img airmask ncoils erodemask out_file min_voxels)
             (abspath env out_file) \<noteq> None"
  using w d few
  by (simp add: art_qi2_def open_append_def Let_def split: option.splits)

text \<open>The theorem on an empty file system and an air region of three voxels, two of them
  positive.\<close>

theorem art_qi2_short_circuit_witness:
  "fst (art_qi2 \<lparr>abspath = (\<lambda>p. ''/work/'' @ p), writable = (\<lambda>p. True),
                 chi_fit = (\<lambda>xs n. Inl ValueError), json_dump = (\<lambda>r. [])\<rparr>
          Map.empty (Vol (2, 2, 2) [3, 0, 5, 7, 9, 9, 9, 9])
          (IntArray (Vol (2, 2, 2) [1, 1, 1, 0, 0, 0, 0, 0])) 12 False ''qi2_fitting.txt'' 1000)
     = Inr (0, ''/work/qi2_fitting.txt'')
   \<and> snd (art_qi2 \<lparr>abspath = (\<lambda>p. ''/work/'' @ p), writable = (\<lambda>p. True),
                 chi_fit = (\<lambda>xs n. Inl ValueError), json_dump = (\<lambda>r. [])\<rparr>
          Map.empty (Vol (2, 2, 2) [3, 0, 5, 7, 9, 9, 9, 9])
          (IntArray (Vol (2, 2, 2) [1, 1, 1, 0, 0, 0, 0, 0])) 12 False ''qi2_fitting.txt'' 1000)
       ''/work/qi2_fitting.txt'' = Some []"
proof -
  let ?env = "\<lparr>abspath = (\<lambda>p. ''/work/'' @ p), writable = (\<lambda>p. True),
                 chi_fit = (\<lambda>xs n. Inl ValueError), json_dump = (\<lambda>r. [])\<rparr>"
  have d: "bool_index (Vol (2, 2, 2) [3, 0, 5, 7, 9, 9, 9, 9])
      (np_greater (eroded_air (IntArray (Vol (2, 2, 2) [1, 1, 1, 0, 0, 0, 0, 0])) False) 0)
        = Inr [3, 0, 5]"
    by (simp add: eroded_air_def bool_index_def np_greater_def)
  have w: "writable ?env (abspath ?env ''qi2_fitting.txt'')" by simp
  have few: "real (length (filter (\<lambda>x. 0 < x) [3, 0, 5 :: real])) < 1000" by simp
  from art_qi2_short_circuit [OF w d few, of Map.empty 12]
  show ?thesis by simp
qed

section \<open>Properties of \<^verbatim>\<open>upload_qc_metrics\<close>\<close>

text \<open>
  C9. For a record whose \<^verbatim>\<open>metadata\<close> is an object in which \<^verbatim>\<open>modality\<close> is absent or is
  neither the string \<^verbatim>\<open>T1w\<close> nor the string \<^verbatim>\<open>bold\<close>, \<^verbatim>\<open>upload_qc_metrics\<close> posts no
  request and returns, without raising, a result of status code 1 with a message.
\<close>

theorem upload_rejects_other_modalities:
  assumes obj: "in_data = JObj in_items"
    and md: "map_of in_items ''metadata'' = Some (JObj md)"
    and other: "map_of md ''modality'' \<noteq> Some (JStr ''T1w'')"
               "map_of md ''modality'' \<noteq> Some (JStr ''bold'')"
  shows "\<exists>msg. upload_qc_metrics env in_data addr port email =
           (Inr \<lparr>status_code = 1, resp_text = msg\<rparr>, [])"
proof (cases "map_of md ''modality''")
  case None
  then show ?thesis
    by (simp add: upload_qc_metrics_def obj md items_of_def dict_get_def)
next
  case (Some m)
  with other have "m \<noteq> JStr ''T1w''" "m \<noteq> JStr ''bold''" by simp_all
  with Some show ?thesis
    by (simp add: upload_qc_metrics_def obj md items_of_def dict_get_def)
qed

text \<open>The theorem on a record of modality \<^verbatim>\<open>T2w\<close> and on one without the key.\<close>

theorem upload_rejects_other_modalities_witness:
  "upload_qc_metrics
     \<lparr>post = (\<lambda>r. Inl ''no route to host''), dumps = (\<lambda>d. []), str_json = (\<lambda>j. []),
      str_int = (\<lambda>i. [])\<rparr>
     (JObj [(''snr'', JNum 12), (''metadata'', JObj [(''modality'', JStr ''T2w'')])])
     ''localhost'' 80 None
   = (Inr \<lparr>status_code = 1,
            resp_text = ''Submitting to MRIQCWebAPI: image modality should be \"bold\" or \"T1w\", (found \"T2w\")''\<rparr>, [])
   \<and> upload_qc_metrics
     \<lparr>post = (\<lambda>r. Inl ''no route to host''), dumps = (\<lambda>d. []), str_json = (\<lambda>j. []),
      str_int = (\<lambda>i. [])\<rparr>
     (JObj [(''snr'', JNum 12), (''metadata'', JObj [])])
     ''localhost'' 80 None
   = (Inr \<lparr>status_code = 1,
            resp_text = ''Submitting to MRIQCWebAPI: image modality should be \"bold\" or \"T1w\", (found \"None\")''\<rparr>, [])"
proof -
  let ?env = "\<lparr>post = (\<lambda>r. Inl ''no route to host''), dumps = (\<lambda>d. []),
                str_json = (\<lambda>j. []), str_int = (\<lambda>i. [])\<rparr>"
  have a: "\<exists>msg. upload_qc_metrics ?env
     (JObj [(''snr'', JNum 12), (''metadata'', JObj [(''modality'', JStr ''T2w'')])])
     ''localhost'' 80 None = (Inr \<lparr>status_code = 1, resp_text = msg\<rparr>, [])"
    by (rule upload_rejects_other_modalities
          [where in_items = "[(''snr'', JNum 12), (''metadata'', JObj [(''modality'', JStr ''T2w'')])]"
             and md = "[(''modality'', JStr ''T2w'')]"]) simp_all
  have b: "\<exists>msg. upload_qc_metrics ?env (JObj [(''snr'', JNum 12), (''metadata'', JObj [])])
     ''localhost'' 80 None = (Inr \<lparr>status_code = 1, resp_text = msg\<rparr>, [])"
    by (rule upload_rejects_other_modalities
          [where in_items = "[(''snr'', JNum 12), (''metadata'', JObj [])]" and md = "[]"])
       simp_all
  from a b show ?thesis
    by (simp add: upload_qc_metrics_def items_of_def dict_get_def percent_s_def)
qed

text \<open>With the modality \<^verbatim>\<open>T1w\<close> one request goes to the \<^verbatim>\<open>T1w\<close> endpoint.\<close>

lemma upload_posts_when_modality_ok:
  "snd (upload_qc_metrics env
     (JObj [(''snr'', JNum 12), (''metadata'', JObj [(''modality'', JStr ''T1w'')])])
     ''localhost'' 80 None) =
     [\<lparr>url = ''http://localhost:'' @ str_int env 80 @ ''/T1w'',
       headers = [(''token'', SECRET_KEY), (''Content-Type'', ''application/json'')],
       payload = dumps env [(''snr'', JNum 12), (''modality'', JStr ''T1w'')]\<rparr>]"
  by (simp add: upload_qc_metrics_def items_of_def dict_get_def percent_s_def settings_items_def
      send_def whitelisted_def META_WHITELIST_def dict_update_def Let_def split: sum.splits)

end
